theory Spec2Isabelle
  imports Complex_Main
begin

section \<open>JavaScript values\<close>

text \<open>
  \<^verbatim>\<open>src/index.js\<close> holds several versions of the server, one after the other; line numbers
  below are lines of that file unless another file is named. The routes built on axios
  (\<^verbatim>\<open>/api/created-gamepasses\<close>, \<^verbatim>\<open>/api/owns\<close>) come in two versions, lines 214 to 340 and
  341 to 455; the routes built on fetch (\<^verbatim>\<open>/api/v1/check-ownership\<close>,
  \<^verbatim>\<open>/api/v1/list-gamepasses\<close>) are modelled from lines 1 to 213 and from
  \<^verbatim>\<open>src/unnamed/part_001\<close>, and \<^verbatim>\<open>/proxy\<close> from \<^verbatim>\<open>src/unnamed/part_000\<close>.

  The handlers inspect upstream bodies of unknown shape, so the
  model works on JavaScript values. A parsed JSON body is built from \<open>JNull\<close>, \<open>JBool\<close>,
  \<open>JNum\<close>, \<open>JStr\<close>, \<open>JArr\<close> and \<open>JObj\<close>; \<open>JUndefined\<close> is what reading a missing
  property yields and \<open>JNaN\<close> is what \<^verbatim>\<open>parseInt\<close> yields on a non-number. A finite number is
  its exact value; infinities are not modelled. A string is a list of code units below 256.
  An object is the list of its own properties, the first entry of a key being the one that
  is read.
\<close>

datatype jsval =
    JUndefined
  | JNull
  | JBool bool
  | JNum rat
  | JNaN
  | JStr string
  | JArr "jsval list"
  | JObj "(string \<times> jsval) list"

text \<open>What a \<^verbatim>\<open>try\<close> block can throw: an axios rejection (with \<^verbatim>\<open>err.response\<close>, its status
  and data, when the upstream answered outside 2xx, and without it on a network failure or
  a timeout), or a \<^verbatim>\<open>TypeError\<close> raised by the handler's own code.\<close>

datatype js_error =
    AxiosError "(nat \<times> jsval) option" string
  | TypeError string

fun err_response :: "js_error \<Rightarrow> (nat \<times> jsval) option" where
  "err_response (AxiosError r m) = r"
| "err_response (TypeError m) = None"

fun err_message :: "js_error \<Rightarrow> string" where
  "err_message (AxiosError r m) = m"
| "err_message (TypeError m) = m"

text \<open>\<^verbatim>\<open>!!v\<close>: the values that count as true in \<^verbatim>\<open>if\<close>, \<^verbatim>\<open>||\<close> and \<^verbatim>\<open>&&\<close>.\<close>

fun truthy :: "jsval \<Rightarrow> bool" where
  "truthy JUndefined = False"
| "truthy JNull = False"
| "truthy (JBool b) = b"
| "truthy (JNum n) = (n \<noteq> 0)"
| "truthy JNaN = False"
| "truthy (JStr s) = (s \<noteq> [])"
| "truthy (JArr xs) = True"
| "truthy (JObj kvs) = True"

fun isArray :: "jsval \<Rightarrow> bool" where
  "isArray (JArr xs) = True"
| "isArray v = False"

text \<open>\<^verbatim>\<open>v.k\<close>: reading a property of \<^verbatim>\<open>null\<close> or \<^verbatim>\<open>undefined\<close> throws; a missing property
  is \<^verbatim>\<open>undefined\<close>. Of the built-in properties of arrays and strings only \<^verbatim>\<open>length\<close> is
  modelled; the handlers read no other. The text of a \<^verbatim>\<open>TypeError\<close> is the engine's; the
  wording of current V8 is used here and below.\<close>

fun get_prop :: "jsval \<Rightarrow> string \<Rightarrow> js_error + jsval" where
  "get_prop JUndefined k =
     Inl (TypeError (''Cannot read properties of undefined (reading '' @ [CHR 0x27] @ k @ [CHR 0x27] @ '')''))"
| "get_prop JNull k =
     Inl (TypeError (''Cannot read properties of null (reading '' @ [CHR 0x27] @ k @ [CHR 0x27] @ '')''))"
| "get_prop (JObj kvs) k = Inr (case map_of kvs k of Some v \<Rightarrow> v | None \<Rightarrow> JUndefined)"
| "get_prop (JArr xs) k = Inr (if k = ''length'' then JNum (of_nat (length xs)) else JUndefined)"
| "get_prop (JStr s) k = Inr (if k = ''length'' then JNum (of_nat (length s)) else JUndefined)"
| "get_prop v k = Inr JUndefined"

text \<open>\<^verbatim>\<open>f(...v)\<close>: the elements of an array, the characters of a string; any other value is
  not iterable and the call throws.\<close>

fun spread :: "jsval \<Rightarrow> js_error + jsval list" where
  "spread (JArr xs) = Inr xs"
| "spread (JStr s) = Inr (map (\<lambda>c. JStr [c]) s)"
| "spread v = Inl (TypeError ''Spread syntax requires ...iterable[Symbol.iterator] to be a function'')"

section \<open>Requests and replies\<close>

text \<open>A URL is kept as the template literal that builds it: literal text and interpolated
  values. How an interpolated value is printed is not modelled.\<close>

datatype seg = Lit string | Val jsval | Query "(string \<times> string) list"

type_synonym url = "seg list"

text \<open>\<^verbatim>\<open>axios.get(url, options)\<close>: the body \<^verbatim>\<open>resp.data\<close> on a 2xx answer, a rejection
  otherwise. The upstream may answer the k-th call of a handler as it likes.\<close>

type_synonym upstream = "nat \<Rightarrow> url \<Rightarrow> js_error + jsval"

text \<open>\<^verbatim>\<open>res.status(n).json(v)\<close> and \<^verbatim>\<open>res.status(n).set(...).type(t).send(text)\<close>.\<close>

datatype reply =
    Json nat jsval
  | Send nat "(string \<times> string) list" string

fun reply_status :: "reply \<Rightarrow> nat" where
  "reply_status (Json n v) = n"
| "reply_status (Send n hs t) = n"

section \<open>The response normalizer\<close>

text \<open>\<^verbatim>\<open>/^\d+$/.test(s)\<close>\<close>

definition is_digit :: "char \<Rightarrow> bool" where
  "is_digit c = (of_char CHR ''0'' \<le> (of_char c :: nat) \<and> (of_char c :: nat) \<le> of_char CHR ''9'')"

definition numeric :: "string \<Rightarrow> bool" where
  "numeric s = (s \<noteq> [] \<and> list_all is_digit s)"

text \<open>Item extraction of \<^verbatim>\<open>src/index.js\<close> lines 264 to 276.\<close>

definition page_items :: "jsval \<Rightarrow> js_error + jsval list" where
  "page_items body =
     (case get_prop body ''data'' of
        Inl e \<Rightarrow> Inl e
      | Inr d \<Rightarrow>
          if isArray d then spread d
          else if isArray body then spread body
          else (case get_prop body ''gamePasses'' of
                  Inl e \<Rightarrow> Inl e
                | Inr g \<Rightarrow>
                    if truthy g then spread g
                    else (case get_prop body ''items'' of
                            Inl e \<Rightarrow> Inl e
                          | Inr i \<Rightarrow> if truthy i then spread i else Inr [])))"

text \<open>Item extraction of the later version, \<^verbatim>\<open>src/index.js\<close> lines 395 to 398.\<close>

definition page_items_v2 :: "jsval \<Rightarrow> js_error + jsval list" where
  "page_items_v2 body =
     (case get_prop body ''data'' of
        Inl e \<Rightarrow> Inl e
      | Inr d \<Rightarrow>
          if isArray d then spread d
          else (case get_prop body ''gamePasses'' of
                  Inl e \<Rightarrow> Inl e
                | Inr g \<Rightarrow>
                    if isArray g then spread g
                    else (case get_prop body ''items'' of
                            Inl e \<Rightarrow> Inl e
                          | Inr i \<Rightarrow> if isArray i then spread i else Inr [])))"

text \<open>\<^verbatim>\<open>body.meta && body.meta.nextExclusiveStartId\<close>\<close>

definition meta_next :: "jsval \<Rightarrow> js_error + jsval" where
  "meta_next body =
     (case get_prop body ''meta'' of
        Inl e \<Rightarrow> Inl e
      | Inr m \<Rightarrow> if truthy m then get_prop m ''nextExclusiveStartId'' else Inr m)"

text \<open>Cursor detection of lines 279 (\<open>last = JNull\<close>, the trailing \<^verbatim>\<open>|| null\<close>) and 400 to 403
  (no trailing alternative: the last operand is the value).\<close>

definition next_id_gen :: "bool \<Rightarrow> jsval \<Rightarrow> js_error + jsval" where
  "next_id_gen or_null body =
     (case get_prop body ''nextExclusiveStartId'' of
        Inl e \<Rightarrow> Inl e
      | Inr a \<Rightarrow>
          if truthy a then Inr a
          else (case get_prop body ''nextCursor'' of
                  Inl e \<Rightarrow> Inl e
                | Inr b \<Rightarrow>
                    if truthy b then Inr b
                    else (case meta_next body of
                            Inl e \<Rightarrow> Inl e
                          | Inr c \<Rightarrow> if truthy c then Inr c else if or_null then Inr JNull else Inr c)))"

definition next_id :: "jsval \<Rightarrow> js_error + jsval" where
  "next_id = next_id_gen True"

definition next_id_v2 :: "jsval \<Rightarrow> js_error + jsval" where
  "next_id_v2 = next_id_gen False"

text \<open>One page: the items to push, then the next id. A throw in either leaves the loop.\<close>

definition normalise_with ::
  "(jsval \<Rightarrow> js_error + jsval list) \<Rightarrow> (jsval \<Rightarrow> js_error + jsval) \<Rightarrow> jsval \<Rightarrow> js_error + (jsval list \<times> jsval)" where
  "normalise_with items cursor body =
     (case items body of
        Inl e \<Rightarrow> Inl e
      | Inr its \<Rightarrow> (case cursor body of Inl e \<Rightarrow> Inl e | Inr nextId \<Rightarrow> Inr (its, nextId)))"

definition normalise :: "jsval \<Rightarrow> js_error + (jsval list \<times> jsval)" where
  "normalise = normalise_with page_items next_id"

definition normalise_v2 :: "jsval \<Rightarrow> js_error + (jsval list \<times> jsval)" where
  "normalise_v2 = normalise_with page_items_v2 next_id_v2"

section \<open>The pagination loop\<close>

definition pageLimit :: rat where
  "pageLimit = 100"

definition safetyPages :: nat where
  "safetyPages = 50"

definition page_url :: "string \<Rightarrow> string \<Rightarrow> jsval \<Rightarrow> url" where
  "page_url base userId exclusiveStartId =
     [Lit base, Lit ''/game-passes/v1/users/'', Lit userId, Lit ''/game-passes?count='', Val (JNum pageLimit)]
     @ (if truthy exclusiveStartId then [Lit ''&exclusiveStartId='', Val exclusiveStartId] else [])"

text \<open>
  The \<^verbatim>\<open>while (pages < safetyPages)\<close> loop of lines 259 to 283 and 387 to 408. The state is
  \<^verbatim>\<open>results\<close>, \<^verbatim>\<open>exclusiveStartId\<close> and \<^verbatim>\<open>pages\<close>; \<open>calls\<close> records every URL handed to
  \<^verbatim>\<open>axios.get\<close>, in order. The result is what the loop leaves in \<^verbatim>\<open>results\<close>, or the error
  that left the \<^verbatim>\<open>try\<close> block.
\<close>

function pages_loop ::
  "(jsval \<Rightarrow> js_error + (jsval list \<times> jsval)) \<Rightarrow> string \<Rightarrow> upstream \<Rightarrow> string
     \<Rightarrow> jsval list \<Rightarrow> jsval \<Rightarrow> nat \<Rightarrow> url list \<Rightarrow> (js_error + jsval list) \<times> url list" where
  "pages_loop nrm base up userId results exclusiveStartId pages calls =
     (if pages < safetyPages then
        (let u = page_url base userId exclusiveStartId in
         case up (length calls) u of
           Inl err \<Rightarrow> (Inl err, calls @ [u])
         | Inr body \<Rightarrow>
             (case nrm body of
                Inl err \<Rightarrow> (Inl err, calls @ [u])
              | Inr (its, nextId) \<Rightarrow>
                  if \<not> truthy nextId then (Inr (results @ its), calls @ [u])
                  else pages_loop nrm base up userId (results @ its) nextId (pages + 1) (calls @ [u])))
      else (Inr results, calls))"
  by pat_completeness auto
termination
  by (relation "measure (\<lambda>(nrm, base, up, userId, results, exclusiveStartId, pages, calls). safetyPages - pages)")
     auto

declare pages_loop.simps [simp del]

text \<open>The \<^verbatim>\<open>catch\<close> block of lines 287 to 291:
  \<^verbatim>\<open>err?.response?.status || 500\<close> and \<^verbatim>\<open>err?.response?.data || err.message || "request failed"\<close>.\<close>

definition catch_status :: "js_error \<Rightarrow> nat" where
  "catch_status err =
     (case err_response err of
        None \<Rightarrow> 500
      | Some (s, d) \<Rightarrow> if s \<noteq> 0 then s else 500)"

definition catch_data :: "js_error \<Rightarrow> jsval" where
  "catch_data err = (case err_response err of None \<Rightarrow> JUndefined | Some (s, d) \<Rightarrow> d)"

definition catch_reply :: "js_error \<Rightarrow> reply" where
  "catch_reply err =
     Json (catch_status err)
       (JObj [(''ok'', JBool False),
              (''error'', if truthy (catch_data err) then catch_data err
                          else if err_message err \<noteq> [] then JStr (err_message err)
                          else JStr ''request failed'')])"

text \<open>The \<^verbatim>\<open>catch\<close> block of lines 411 to 416: no last alternative.\<close>

definition catch_reply_v2 :: "js_error \<Rightarrow> reply" where
  "catch_reply_v2 err =
     Json (catch_status err)
       (JObj [(''ok'', JBool False),
              (''error'', if truthy (catch_data err) then catch_data err
                          else JStr (err_message err))])"

text \<open>\<^verbatim>\<open>GET /api/created-gamepasses/:userId\<close>, lines 247 to 292. The reply comes with the
  URLs requested upstream.\<close>

definition created_gamepasses_with ::
  "(jsval \<Rightarrow> js_error + (jsval list \<times> jsval)) \<Rightarrow> (js_error \<Rightarrow> reply) \<Rightarrow> string
     \<Rightarrow> upstream \<Rightarrow> string \<Rightarrow> reply \<times> url list" where
  "created_gamepasses_with nrm catch base up userId =
     (if \<not> numeric userId then (Json 400 (JObj [(''error'', JStr ''userId must be numeric'')]), [])
      else (case pages_loop nrm base up userId [] (JStr []) 0 [] of
              (Inr results, calls) \<Rightarrow>
                (Json 200 (JObj [(''ok'', JBool True),
                                 (''count'', JNum (of_nat (length results))),
                                 (''results'', JArr results)]), calls)
            | (Inl err, calls) \<Rightarrow> (catch err, calls)))"

definition api_base :: "bool \<Rightarrow> string" where
  "api_base use_roroxy =
     (if use_roroxy then ''https://rproxy.org/http://apis.roblox.com'' else ''https://apis.roblox.com'')"

definition created_gamepasses :: "bool \<Rightarrow> upstream \<Rightarrow> string \<Rightarrow> reply \<times> url list" where
  "created_gamepasses use_roroxy = created_gamepasses_with normalise catch_reply (api_base use_roroxy)"

text \<open>The later version, lines 375 to 417.\<close>

definition created_gamepasses_v2 :: "upstream \<Rightarrow> string \<Rightarrow> reply \<times> url list" where
  "created_gamepasses_v2 = created_gamepasses_with normalise_v2 catch_reply_v2 ''https://apis.roblox.com''"

section \<open>The ownership check\<close>

text \<open>\<^verbatim>\<open>count > 0\<close>. A number compares by its value and a boolean as 1 or 0; \<^verbatim>\<open>null\<close>
  counts as 0 and \<^verbatim>\<open>undefined\<close> as NaN. A string, an array or an object is first converted
  to a number by the runtime: that conversion is the parameter \<open>to_number\<close>.\<close>

fun gt_zero :: "(jsval \<Rightarrow> jsval) \<Rightarrow> jsval \<Rightarrow> bool" where
  "gt_zero to_number (JNum n) = (0 < n)"
| "gt_zero to_number (JBool b) = b"
| "gt_zero to_number JNull = False"
| "gt_zero to_number JUndefined = False"
| "gt_zero to_number JNaN = False"
| "gt_zero to_number v = (case to_number v of JNum n \<Rightarrow> 0 < n | _ \<Rightarrow> False)"

text \<open>\<^verbatim>\<open>body && Array.isArray(body.data)\<close>\<close>

definition has_data_list :: "jsval \<Rightarrow> js_error + bool" where
  "has_data_list body =
     (if truthy body then (case get_prop body ''data'' of Inl e \<Rightarrow> Inl e | Inr d \<Rightarrow> Inr (isArray d))
      else Inr False)"

text \<open>\<^verbatim>\<open>body.totalCount || body.total || body.count\<close>\<close>

definition first_count :: "jsval \<Rightarrow> js_error + jsval" where
  "first_count body =
     (case get_prop body ''totalCount'' of
        Inl e \<Rightarrow> Inl e
      | Inr a \<Rightarrow>
          if truthy a then Inr a
          else (case get_prop body ''total'' of
                  Inl e \<Rightarrow> Inl e
                | Inr b \<Rightarrow> if truthy b then Inr b else get_prop body ''count''))"

text \<open>\<^verbatim>\<open>body && (body.totalCount || body.total || body.count)\<close>\<close>

definition has_count :: "jsval \<Rightarrow> js_error + bool" where
  "has_count body =
     (if truthy body then (case first_count body of Inl e \<Rightarrow> Inl e | Inr c \<Rightarrow> Inr (truthy c))
      else Inr False)"

text \<open>\<^verbatim>\<open>body.data.length > 0\<close>, read once \<^verbatim>\<open>body.data\<close> is known to be an array.\<close>

fun non_empty :: "jsval \<Rightarrow> bool" where
  "non_empty (JArr xs) = (0 < length xs)"
| "non_empty v = False"

text \<open>The \<^verbatim>\<open>try\<close> block of lines 311 to 326 (and 433 to 444), from the body on.\<close>

definition owns_try :: "(jsval \<Rightarrow> jsval) \<Rightarrow> jsval \<Rightarrow> js_error + reply" where
  "owns_try to_number body =
     (case has_data_list body of
        Inl e \<Rightarrow> Inl e
      | Inr True \<Rightarrow>
          (case get_prop body ''data'' of
             Inl e \<Rightarrow> Inl e
           | Inr d \<Rightarrow> Inr (Json 200 (JObj [(''ok'', JBool True), (''owns'', JBool (non_empty d)), (''raw'', body)])))
      | Inr False \<Rightarrow>
          (case has_count body of
             Inl e \<Rightarrow> Inl e
           | Inr True \<Rightarrow>
               (case first_count body of
                  Inl e \<Rightarrow> Inl e
                | Inr count \<Rightarrow>
                    Inr (Json 200 (JObj [(''ok'', JBool True), (''owns'', JBool (gt_zero to_number count)),
                                         (''count'', count), (''raw'', body)])))
           | Inr False \<Rightarrow>
               Inr (Json 200 (JObj [(''ok'', JBool False), (''owns'', JStr ''unknown''), (''raw'', body)]))))"

text \<open>The \<^verbatim>\<open>catch\<close> block of lines 328 to 335 (and 445 to 451); \<open>catch\<close> is the version's
  failure reply.\<close>

definition owns_catch :: "(js_error \<Rightarrow> reply) \<Rightarrow> js_error \<Rightarrow> reply" where
  "owns_catch catch err =
     (if (case err_response err of None \<Rightarrow> False | Some (s, d) \<Rightarrow> s = 404)
      then Json 200 (JObj [(''ok'', JBool True), (''owns'', JBool False)])
      else catch err)"

definition owns_url :: "string \<Rightarrow> string \<Rightarrow> url" where
  "owns_url userId gamePassId =
     [Lit ''https://inventory.roblox.com/v1/users/'', Lit userId, Lit ''/items/GamePass/'', Lit gamePassId]"

text \<open>\<^verbatim>\<open>GET /api/owns/:userId/:gamePassId\<close>, lines 300 to 336.\<close>

definition owns_with ::
  "(js_error \<Rightarrow> reply) \<Rightarrow> (jsval \<Rightarrow> jsval) \<Rightarrow> upstream \<Rightarrow> string \<Rightarrow> string \<Rightarrow> reply \<times> url list" where
  "owns_with catch to_number up userId gamePassId =
     (if \<not> numeric userId \<or> \<not> numeric gamePassId
      then (Json 400 (JObj [(''error'', JStr ''userId and gamePassId must be numeric'')]), [])
      else (let u = owns_url userId gamePassId in
            case up 0 u of
              Inl err \<Rightarrow> (owns_catch catch err, [u])
            | Inr body \<Rightarrow>
                (case owns_try to_number body of
                   Inl err \<Rightarrow> (owns_catch catch err, [u])
                 | Inr r \<Rightarrow> (r, [u]))))"

definition owns :: "(jsval \<Rightarrow> jsval) \<Rightarrow> upstream \<Rightarrow> string \<Rightarrow> string \<Rightarrow> reply \<times> url list" where
  "owns = owns_with catch_reply"

text \<open>The later version, lines 420 to 452.\<close>

definition owns_v2 :: "(jsval \<Rightarrow> jsval) \<Rightarrow> upstream \<Rightarrow> string \<Rightarrow> string \<Rightarrow> reply \<times> url list" where
  "owns_v2 = owns_with catch_reply_v2"

section \<open>Numbers read from strings\<close>

text \<open>
  \<^verbatim>\<open>isNaN(s)\<close> on a string converts it to a number first; the result is NaN exactly when
  the string, trimmed of white space, is neither empty nor a numeric literal: a decimal
  literal with an optional sign, fraction and exponent, \<^verbatim>\<open>Infinity\<close> with an optional sign,
  or an unsigned binary, octal or hexadecimal integer literal.
\<close>

definition is_space :: "char \<Rightarrow> bool" where
  "is_space c = List.member [9, 10, 11, 12, 13, 32, 160 :: nat] (of_char c)"

definition trim :: "string \<Rightarrow> string" where
  "trim s = rev (dropWhile is_space (rev (dropWhile is_space s)))"

definition is_sign :: "char \<Rightarrow> bool" where
  "is_sign c = (c = CHR ''+'' \<or> c = CHR ''-'')"

definition is_exp_mark :: "char \<Rightarrow> bool" where
  "is_exp_mark c = (c = CHR ''e'' \<or> c = CHR ''E'')"

definition is_bin_digit :: "char \<Rightarrow> bool" where
  "is_bin_digit c = (c = CHR ''0'' \<or> c = CHR ''1'')"

definition is_oct_digit :: "char \<Rightarrow> bool" where
  "is_oct_digit c = (of_char CHR ''0'' \<le> (of_char c :: nat) \<and> (of_char c :: nat) \<le> of_char CHR ''7'')"

definition is_hex_digit :: "char \<Rightarrow> bool" where
  "is_hex_digit c =
     (is_digit c
      \<or> (of_char CHR ''a'' \<le> (of_char c :: nat) \<and> (of_char c :: nat) \<le> of_char CHR ''f'')
      \<or> (of_char CHR ''A'' \<le> (of_char c :: nat) \<and> (of_char c :: nat) \<le> of_char CHR ''F''))"

text \<open>The exponent after its mark: an optional sign, then digits.\<close>

definition exponent_part :: "string \<Rightarrow> bool" where
  "exponent_part s =
     (case s of [] \<Rightarrow> False | c # cs \<Rightarrow> if is_sign c then numeric cs else numeric s)"

text \<open>Digits, digits with a fraction, or a fraction alone: at least one digit in all.\<close>

definition mantissa :: "string \<Rightarrow> bool" where
  "mantissa s =
     (let ip = takeWhile is_digit s; rest = dropWhile is_digit s in
      case rest of
        [] \<Rightarrow> ip \<noteq> []
      | c # fp \<Rightarrow> c = CHR ''.'' \<and> list_all is_digit fp \<and> (if ip = [] then fp \<noteq> [] else True))"

definition unsigned_decimal :: "string \<Rightarrow> bool" where
  "unsigned_decimal s =
     (if s = ''Infinity'' then True
      else (let m = takeWhile (\<lambda>c. \<not> is_exp_mark c) s; r = dropWhile (\<lambda>c. \<not> is_exp_mark c) s in
            mantissa m \<and> (case r of [] \<Rightarrow> True | e # ex \<Rightarrow> exponent_part ex)))"

definition non_decimal :: "string \<Rightarrow> bool" where
  "non_decimal s =
     (case s of
        z # p # ds \<Rightarrow>
          z = CHR ''0'' \<and> ds \<noteq> []
          \<and> (if p = CHR ''x'' \<or> p = CHR ''X'' then list_all is_hex_digit ds
             else if p = CHR ''o'' \<or> p = CHR ''O'' then list_all is_oct_digit ds
             else if p = CHR ''b'' \<or> p = CHR ''B'' then list_all is_bin_digit ds
             else False)
      | _ \<Rightarrow> False)"

definition numeric_literal :: "string \<Rightarrow> bool" where
  "numeric_literal s =
     (let t = trim s in
      case t of
        [] \<Rightarrow> True
      | c # cs \<Rightarrow> if non_decimal t then True else if is_sign c then unsigned_decimal cs else unsigned_decimal t)"

definition isNaN :: "string \<Rightarrow> bool" where
  "isNaN s = (\<not> numeric_literal s)"

text \<open>\<^verbatim>\<open>parseInt(s, 10)\<close>: leading white space, an optional sign, then the longest run of
  digits; NaN when there is no digit. The value is exact: the rounding of a long run of
  digits to a double is not modelled.\<close>

definition digit_value :: "char \<Rightarrow> nat" where
  "digit_value c = of_char c - of_char CHR ''0''"

definition digits_value :: "string \<Rightarrow> nat" where
  "digits_value ds = foldl (\<lambda>a c. 10 * a + digit_value c) 0 ds"

definition parseInt :: "string \<Rightarrow> jsval" where
  "parseInt s =
     (let t = dropWhile is_space s;
          u = (case t of [] \<Rightarrow> [] | c # cs \<Rightarrow> if is_sign c then cs else t);
          ds = takeWhile is_digit u
      in if ds = [] then JNaN
         else if (case t of [] \<Rightarrow> False | c # cs \<Rightarrow> c = CHR ''-'') then JNum (- of_nat (digits_value ds))
         else JNum (of_nat (digits_value ds)))"

text \<open>\<^verbatim>\<open>s.toLowerCase()\<close> on code units below 256.\<close>

definition lower_char :: "char \<Rightarrow> char" where
  "lower_char c =
     (let n = (of_char c :: nat) in
      if (65 \<le> n \<and> n \<le> 90) \<or> (192 \<le> n \<and> n \<le> 222 \<and> n \<noteq> 215) then char_of (n + 32) else c)"

definition toLowerCase :: "string \<Rightarrow> string" where
  "toLowerCase s = map lower_char s"

section \<open>The handlers built on fetch\<close>

text \<open>
  \<^verbatim>\<open>fetch(url, options)\<close> rejects (a network failure, also while the body is read), or
  resolves to a response of any status: its status, its body text and what
  \<^verbatim>\<open>response.json()\<close> yields for that text, the parsed value or the message of the error it
  throws. A request is a URL with its headers.
\<close>

datatype fetch_result =
    FetchRejects string
  | FetchResponse nat string "string + jsval"

type_synonym request = "url \<times> (string \<times> string) list"

type_synonym fetcher = "request \<Rightarrow> fetch_result"

text \<open>\<^verbatim>\<open>response.ok\<close>\<close>

definition response_ok :: "nat \<Rightarrow> bool" where
  "response_ok status = (200 \<le> status \<and> status \<le> 299)"

text \<open>A query parameter is absent or a string; \<^verbatim>\<open>!p\<close> is true of an absent and of an empty
  one. Repeated and nested parameters are not modelled.\<close>

fun given :: "string option \<Rightarrow> bool" where
  "given None = False"
| "given (Some s) = (s \<noteq> [])"

fun text_of :: "string option \<Rightarrow> string" where
  "text_of None = []"
| "text_of (Some s) = s"

text \<open>\<^verbatim>\<open>GET /api/v1/check-ownership\<close>, \<^verbatim>\<open>src/index.js\<close> lines 55 to 112. \<open>now\<close> is the
  time stamp of the reply.\<close>

definition check_ownership ::
  "string \<Rightarrow> fetcher \<Rightarrow> string option \<Rightarrow> string option \<Rightarrow> reply \<times> request list" where
  "check_ownership now fetch userId gamePassId =
     (if \<not> given userId \<or> \<not> given gamePassId
      then (Json 400 (JObj [(''success'', JBool False),
                            (''message'', JStr ''Missing required parameters: userId and gamePassId.'')]), [])
      else if isNaN (text_of userId) \<or> isNaN (text_of gamePassId)
      then (Json 400 (JObj [(''success'', JBool False),
                            (''message'', JStr ''userId and gamePassId must be valid numbers.'')]), [])
      else (let req = ([Lit ''https://inventory.roblox.com/v1/users/'', Lit (text_of userId), Lit ''/items/'',
                        Lit ''GamePass'', Lit ''/'', Lit (text_of gamePassId), Lit ''/is-owned''],
                       [(''Content-Type'', ''application/json'')]) in
            case fetch req of
              FetchRejects msg \<Rightarrow>
                (Json 500 (JObj [(''success'', JBool False),
                                 (''message'', JStr ''Internal server error while processing ownership check.''),
                                 (''error'', JStr msg)]), [req])
            | FetchResponse status isOwnedText parsed \<Rightarrow>
                if \<not> response_ok status
                then (Json status (JObj [(''success'', JBool False),
                                         (''message'', JStr ''Failed to check ownership via Roblox API.''),
                                         (''robloxStatusCode'', JNum (of_nat status))]), [req])
                else (Json 200 (JObj [(''success'', JBool True),
                                      (''method'', JStr ''check-ownership''),
                                      (''userId'', parseInt (text_of userId)),
                                      (''gamePassId'', parseInt (text_of gamePassId)),
                                      (''isOwned'', JBool (toLowerCase isOwnedText = ''true'')),
                                      (''timestamp'', JStr now)]), [req])))"

text \<open>\<^verbatim>\<open>const params = new URLSearchParams(); if (passView) params.append(...)\<close> and so on.\<close>

definition search_params :: "string option \<Rightarrow> string option \<Rightarrow> string option \<Rightarrow> (string \<times> string) list" where
  "search_params passView pageSize pageToken =
     (if given passView then [(''passView'', text_of passView)] else [])
     @ (if given pageSize then [(''pageSize'', text_of pageSize)] else [])
     @ (if given pageToken then [(''pageToken'', text_of pageToken)] else [])"

definition universe_url :: "string \<Rightarrow> (string \<times> string) list \<Rightarrow> url" where
  "universe_url universeId params =
     [Lit ''https://apis.roblox.com/game-passes/v1/universes/'', Lit universeId, Lit ''/game-passes?'', Query params]"

text \<open>\<^verbatim>\<open>GET /api/v1/list-gamepasses\<close>, \<^verbatim>\<open>src/index.js\<close> lines 115 to 187. \<open>api_key\<close> is
  \<^verbatim>\<open>process.env.ROBLOX_API_KEY\<close>, absent when the variable is not set.\<close>

definition list_gamepasses ::
  "string option \<Rightarrow> string \<Rightarrow> fetcher \<Rightarrow> string option \<Rightarrow> string option \<Rightarrow> string option \<Rightarrow> string option
     \<Rightarrow> reply \<times> request list" where
  "list_gamepasses api_key now fetch universeId passView pageSize pageToken =
     (if \<not> given universeId
      then (Json 400 (JObj [(''success'', JBool False),
                            (''message'', JStr ''Missing required parameter: universeId.'')]), [])
      else if isNaN (text_of universeId)
      then (Json 400 (JObj [(''success'', JBool False),
                            (''message'', JStr ''universeId must be a valid number.'')]), [])
      else if \<not> given api_key
      then (Json 500 (JObj [(''success'', JBool False),
                            (''message'', JStr ''Server Error: ROBLOX_API_KEY environment variable is not set.''),
                            (''guide'', JStr ''Please generate a key on the Creator Dashboard with Game Pass read permissions.'')]), [])
      else (let req = (universe_url (text_of universeId) (search_params passView pageSize pageToken),
                       [(''x-api-key'', text_of api_key), (''Content-Type'', ''application/json'')]) in
            case fetch req of
              FetchRejects msg \<Rightarrow>
                (Json 500 (JObj [(''success'', JBool False),
                                 (''message'', JStr ''Internal server error while processing the game pass list request.''),
                                 (''error'', JStr msg)]), [req])
            | FetchResponse status errorText parsed \<Rightarrow>
                if \<not> response_ok status
                then (Json status (JObj [(''success'', JBool False),
                                         (''message'', JStr ''Failed to retrieve game passes from Roblox API.''),
                                         (''robloxStatusCode'', JNum (of_nat status)),
                                         (''robloxError'', JStr errorText)]), [req])
                else (case parsed of
                        Inl msg \<Rightarrow>
                          (Json 500 (JObj [(''success'', JBool False),
                                           (''message'', JStr ''Internal server error while processing the game pass list request.''),
                                           (''error'', JStr msg)]), [req])
                      | Inr data \<Rightarrow>
                          (Json 200 (JObj [(''success'', JBool True),
                                           (''method'', JStr ''list-gamepasses''),
                                           (''universeId'', parseInt (text_of universeId)),
                                           (''data'', data),
                                           (''timestamp'', JStr now)]), [req]))))"

text \<open>The same route in \<^verbatim>\<open>src/unnamed/part_001\<close>, lines 69 to 118: no key is read and none
  is sent.\<close>

definition list_gamepasses_keyless ::
  "fetcher \<Rightarrow> string option \<Rightarrow> string option \<Rightarrow> string option \<Rightarrow> string option \<Rightarrow> reply \<times> request list" where
  "list_gamepasses_keyless fetch universeId passView pageSize pageToken =
     (if \<not> given universeId
      then (Json 400 (JObj [(''success'', JBool False),
                            (''message'', JStr ''Missing required parameter: universeId.'')]), [])
      else (let req = (universe_url (text_of universeId) (search_params passView pageSize pageToken), []) in
            case fetch req of
              FetchRejects msg \<Rightarrow>
                (Json 500 (JObj [(''success'', JBool False),
                                 (''message'', JStr ''Internal server error while processing the game pass list request.''),
                                 (''error'', JStr msg)]), [req])
            | FetchResponse status errorText parsed \<Rightarrow>
                if \<not> response_ok status
                then (Json status (JObj [(''success'', JBool False),
                                         (''message'', JStr ''Failed to retrieve game passes from Roblox API.''),
                                         (''robloxStatusCode'', JNum (of_nat status)),
                                         (''robloxError'', JStr errorText)]), [req])
                else (case parsed of
                        Inl msg \<Rightarrow>
                          (Json 500 (JObj [(''success'', JBool False),
                                           (''message'', JStr ''Internal server error while processing the game pass list request.''),
                                           (''error'', JStr msg)]), [req])
                      | Inr data \<Rightarrow>
                          (Json 200 (JObj [(''success'', JBool True),
                                           (''method'', JStr ''list-gamepasses''),
                                           (''universeId'', parseInt (text_of universeId)),
                                           (''data'', data)]), [req]))))"

text \<open>\<^verbatim>\<open>GET /proxy\<close>, \<^verbatim>\<open>src/unnamed/part_000\<close> lines 12 to 28. The reply to a response is
  sent with the default status, 200, the header set by \<^verbatim>\<open>res.set\<close> and the type given to
  \<^verbatim>\<open>res.type\<close>.\<close>

definition proxy :: "fetcher \<Rightarrow> string option \<Rightarrow> reply \<times> request list" where
  "proxy fetch targetUrl =
     (if \<not> given targetUrl
      then (Json 400 (JObj [(''error'', JStr (''Missing '' @ [CHR 0x27] @ ''url'' @ [CHR 0x27] @ '' parameter''))]), [])
      else (let req = ([Lit (text_of targetUrl)], [(''User-Agent'', ''Roblox-Proxy'')]) in
            case fetch req of
              FetchRejects msg \<Rightarrow>
                (Json 500 (JObj [(''error'', JStr ''Failed to fetch data''), (''details'', JStr msg)]), [req])
            | FetchResponse status data parsed \<Rightarrow>
                (Send 200 [(''Access-Control-Allow-Origin'', ''*''), (''Content-Type'', ''application/json'')] data,
                 [req])))"

section \<open>The cursor and the count as the specification words them\<close>

text \<open>A field of a value, \<^verbatim>\<open>undefined\<close> where there is none to read.\<close>

definition field :: "jsval \<Rightarrow> string \<Rightarrow> jsval" where
  "field v k = (case get_prop v k of Inl e \<Rightarrow> JUndefined | Inr x \<Rightarrow> x)"

text \<open>The fields tried for the next-page cursor, in order: \<^verbatim>\<open>nextExclusiveStartId\<close>,
  \<^verbatim>\<open>nextCursor\<close>, then \<^verbatim>\<open>meta.nextExclusiveStartId\<close>. The first non-empty one is
  \<open>find truthy\<close> of this list.\<close>

definition cursor_candidates :: "jsval \<Rightarrow> jsval list" where
  "cursor_candidates body =
     [field body ''nextExclusiveStartId'', field body ''nextCursor'',
      field (field body ''meta'') ''nextExclusiveStartId'']"

text \<open>The fields tried for a count, in order; the first truthy one is \<open>find truthy\<close> of this
  list.\<close>

definition count_candidates :: "jsval \<Rightarrow> jsval list" where
  "count_candidates body = [field body ''totalCount'', field body ''total'', field body ''count'']"

section \<open>Describing a run of the loop\<close>

text \<open>What a page contributes, read off the normalizer: its items, its next id, whether it
  was normalised without a throw, and whether the loop goes on after it.\<close>

definition items_of :: "(jsval \<Rightarrow> js_error + (jsval list \<times> jsval)) \<Rightarrow> jsval \<Rightarrow> jsval list" where
  "items_of nrm body = (case nrm body of Inl e \<Rightarrow> [] | Inr (its, nextId) \<Rightarrow> its)"

definition cursor_of :: "(jsval \<Rightarrow> js_error + (jsval list \<times> jsval)) \<Rightarrow> jsval \<Rightarrow> jsval" where
  "cursor_of nrm body = (case nrm body of Inl e \<Rightarrow> JUndefined | Inr (its, nextId) \<Rightarrow> nextId)"

definition page_ok :: "(jsval \<Rightarrow> js_error + (jsval list \<times> jsval)) \<Rightarrow> jsval \<Rightarrow> bool" where
  "page_ok nrm body = (case nrm body of Inl e \<Rightarrow> False | Inr p \<Rightarrow> True)"

definition has_next :: "(jsval \<Rightarrow> js_error + (jsval list \<times> jsval)) \<Rightarrow> jsval \<Rightarrow> bool" where
  "has_next nrm body = (page_ok nrm body \<and> truthy (cursor_of nrm body))"

text \<open>\<open>answers\<close>: the upstream answers the calls number \<open>k\<close>, \<open>k + 1\<close>, ... with the given
  bodies, the first call carrying the cursor \<open>cur\<close> and each later call the next id of the
  body before it. \<open>requests\<close> are the URLs of those calls and \<open>cursor_after\<close> is the cursor
  that the call after them carries.\<close>

fun answers ::
  "(jsval \<Rightarrow> js_error + (jsval list \<times> jsval)) \<Rightarrow> string \<Rightarrow> string \<Rightarrow> upstream
     \<Rightarrow> nat \<Rightarrow> jsval \<Rightarrow> jsval list \<Rightarrow> bool" where
  "answers nrm base userId up k cur [] = True"
| "answers nrm base userId up k cur (b # bs) =
     (up k (page_url base userId cur) = Inr b \<and> answers nrm base userId up (Suc k) (cursor_of nrm b) bs)"

fun requests ::
  "(jsval \<Rightarrow> js_error + (jsval list \<times> jsval)) \<Rightarrow> string \<Rightarrow> string \<Rightarrow> jsval \<Rightarrow> jsval list \<Rightarrow> url list" where
  "requests nrm base userId cur [] = []"
| "requests nrm base userId cur (b # bs) = page_url base userId cur # requests nrm base userId (cursor_of nrm b) bs"

fun cursor_after :: "(jsval \<Rightarrow> js_error + (jsval list \<times> jsval)) \<Rightarrow> jsval \<Rightarrow> jsval list \<Rightarrow> jsval" where
  "cursor_after nrm cur [] = cur"
| "cursor_after nrm cur (b # bs) = cursor_after nrm (cursor_of nrm b) bs"

section \<open>Example upstreams\<close>

text \<open>An upstream whose every page carries a cursor.\<close>

definition always_more :: upstream where
  "always_more k u = Inr (JObj [(''data'', JArr [JNum (of_nat k)]), (''nextCursor'', JStr ''more'')])"

text \<open>Pages that overlap (page \<open>k\<close> holds the items \<open>k\<close> and \<open>k + 1\<close>), with a cursor or
  without; an upstream of three such pages, and one whose third call fails with a given
  error.\<close>

definition page_body :: "nat \<Rightarrow> bool \<Rightarrow> jsval" where
  "page_body k more =
     JObj ((''data'', JArr [JNum (of_nat k), JNum (of_nat (k + 1))])
           # (if more then [(''nextExclusiveStartId'', JStr ''next'')] else []))"

definition three_pages :: upstream where
  "three_pages k u = Inr (page_body k (k < 2))"

definition fails_on_third :: "js_error \<Rightarrow> upstream" where
  "fails_on_third err k u = (if k = 2 then Inl err else Inr (page_body k (k < 4)))"

text \<open>Upstreams whose second and last page carries no cursor and is \<^verbatim>\<open>null\<close>, or has an
  \<^verbatim>\<open>items\<close> field that is an object.\<close>

definition last_page_null :: upstream where
  "last_page_null k u = Inr (if k = 0 then page_body 0 True else JNull)"

definition last_page_odd_items :: upstream where
  "last_page_odd_items k u =
     Inr (if k = 0 then page_body 0 True else JObj [(''items'', JObj [(''a'', JNum 1)])])"

text \<open>A body whose cursor is found in the third place only.\<close>

definition meta_cursor_body :: jsval where
  "meta_cursor_body =
     JObj [(''data'', JArr [JNum 1]), (''nextCursor'', JStr []),
           (''meta'', JObj [(''nextExclusiveStartId'', JNum 42)])]"

definition meta_cursor_upstream :: upstream where
  "meta_cursor_upstream k u = Inr meta_cursor_body"

text \<open>Bodies of unusual shape.\<close>

definition null_upstream :: upstream where
  "null_upstream k u = Inr JNull"

definition odd_field_upstream :: upstream where
  "odd_field_upstream k u = Inr (JObj [(''gamePasses'', JNum 7)])"

definition zero_count_upstream :: upstream where
  "zero_count_upstream k u = Inr (JObj [(''totalCount'', JNum 0)])"

text \<open>An upstream that rejects every call with a status, a body and a message; a runtime
  conversion that makes every string, array and object NaN.\<close>

definition rejects_with :: "nat \<Rightarrow> jsval \<Rightarrow> string \<Rightarrow> upstream" where
  "rejects_with status data message k u = Inl (AxiosError (Some (status, data)) message)"

definition no_conversion :: "jsval \<Rightarrow> jsval" where
  "no_conversion v = JNaN"

text \<open>Answers to \<^verbatim>\<open>fetch\<close>: the text \<^verbatim>\<open>true\<close>, a 404, and a network failure.\<close>

definition says_true :: fetcher where
  "says_true req = FetchResponse 200 ''true'' (Inr (JBool True))"

definition not_found :: fetcher where
  "not_found req = FetchResponse 404 ''{}'' (Inr (JObj []))"

definition unreachable :: fetcher where
  "unreachable req = FetchRejects ''getaddrinfo ENOTFOUND''"

section \<open>Termination and the page cap\<close>

lemma pages_loop_calls:
  "length (snd (pages_loop nrm base up userId results cur pages calls))
     \<le> length calls + (safetyPages - pages)"
proof (induction nrm base up userId results cur pages calls rule: pages_loop.induct)
  case (1 nrm base up userId results cur pages calls)
  show ?case
  proof (cases "pages < safetyPages")
    case False
    then show ?thesis by (simp add: pages_loop.simps)
  next
    case True
    let ?u = "page_url base userId cur"
    show ?thesis
    proof (cases "up (length calls) ?u")
      case (Inl err)
      with True show ?thesis by (simp add: pages_loop.simps [of nrm base up userId results cur pages calls])
    next
      case (Inr body)
      show ?thesis
      proof (cases "nrm body")
        case (Inl err)
        with True Inr show ?thesis
          by (simp add: pages_loop.simps [of nrm base up userId results cur pages calls])
      next
        case inr: (Inr p)
        obtain its nextId where p: "p = (its, nextId)" by (cases p)
        show ?thesis
        proof (cases "truthy nextId")
          case False
          with True Inr inr p show ?thesis
            by (simp add: pages_loop.simps [of nrm base up userId results cur pages calls])
        next
          case t: True
          have "length (snd (pages_loop nrm base up userId (results @ its) nextId (pages + 1) (calls @ [?u])))
                  \<le> length (calls @ [?u]) + (safetyPages - (pages + 1))"
            using "1.IH" [OF True refl Inr inr p [symmetric]] t by simp
          with True Inr inr p t show ?thesis
            by (simp add: pages_loop.simps [of nrm base up userId results cur pages calls])
        qed
      qed
    qed
  qed
qed

text \<open>One turn of the loop, case by case.\<close>

lemma loop_exit:
  "\<not> pages < safetyPages \<Longrightarrow> pages_loop nrm base up userId results cur pages calls = (Inr results, calls)"
  by (simp add: pages_loop.simps)

lemma loop_call_fails:
  "pages < safetyPages \<Longrightarrow> up (length calls) (page_url base userId cur) = Inl err \<Longrightarrow>
   pages_loop nrm base up userId results cur pages calls = (Inl err, calls @ [page_url base userId cur])"
  by (simp add: pages_loop.simps [of nrm base up userId results cur pages calls])

lemma loop_page_throws:
  "pages < safetyPages \<Longrightarrow> up (length calls) (page_url base userId cur) = Inr body \<Longrightarrow>
   nrm body = Inl err \<Longrightarrow>
   pages_loop nrm base up userId results cur pages calls = (Inl err, calls @ [page_url base userId cur])"
  by (simp add: pages_loop.simps [of nrm base up userId results cur pages calls])

lemma loop_break:
  "pages < safetyPages \<Longrightarrow> up (length calls) (page_url base userId cur) = Inr body \<Longrightarrow>
   nrm body = Inr (its, nextId) \<Longrightarrow> \<not> truthy nextId \<Longrightarrow>
   pages_loop nrm base up userId results cur pages calls = (Inr (results @ its), calls @ [page_url base userId cur])"
  by (simp add: pages_loop.simps [of nrm base up userId results cur pages calls])

lemma loop_continue:
  "pages < safetyPages \<Longrightarrow> up (length calls) (page_url base userId cur) = Inr body \<Longrightarrow>
   nrm body = Inr (its, nextId) \<Longrightarrow> truthy nextId \<Longrightarrow>
   pages_loop nrm base up userId results cur pages calls
     = pages_loop nrm base up userId (results @ its) nextId (pages + 1) (calls @ [page_url base userId cur])"
  by (simp add: pages_loop.simps [of nrm base up userId results cur pages calls])

text \<open>A run of pages that all carry a cursor takes the loop from one state to the state
  after the last of them.\<close>

lemma length_requests: "length (requests nrm base userId cur bs) = length bs"
  by (induction bs arbitrary: cur) auto

lemma page_ok_nrm: "page_ok nrm b \<Longrightarrow> nrm b = Inr (items_of nrm b, cursor_of nrm b)"
  by (auto simp: page_ok_def items_of_def cursor_of_def split: sum.splits)

lemma loop_pages:
  "answers nrm base userId up (length calls) cur bs \<Longrightarrow> list_all (has_next nrm) bs \<Longrightarrow>
   pages + length bs \<le> safetyPages \<Longrightarrow>
   pages_loop nrm base up userId results cur pages calls
     = pages_loop nrm base up userId (results @ concat (map (items_of nrm) bs)) (cursor_after nrm cur bs)
         (pages + length bs) (calls @ requests nrm base userId cur bs)"
proof (induction bs arbitrary: results cur pages calls)
  case Nil
  then show ?case by simp
next
  case (Cons b bs)
  from Cons.prems have lt: "pages < safetyPages" by simp
  from Cons.prems have call: "up (length calls) (page_url base userId cur) = Inr b" by simp
  from Cons.prems have ok: "page_ok nrm b" and tr: "truthy (cursor_of nrm b)"
    by (simp_all add: has_next_def)
  have step: "pages_loop nrm base up userId results cur pages calls
      = pages_loop nrm base up userId (results @ items_of nrm b) (cursor_of nrm b) (pages + 1)
          (calls @ [page_url base userId cur])"
    using lt call page_ok_nrm [OF ok] tr
    by (rule loop_continue [where nrm = nrm and up = up and body = b])
  have rest: "pages_loop nrm base up userId (results @ items_of nrm b) (cursor_of nrm b) (pages + 1)
          (calls @ [page_url base userId cur])
      = pages_loop nrm base up userId ((results @ items_of nrm b) @ concat (map (items_of nrm) bs))
          (cursor_after nrm (cursor_of nrm b) bs) ((pages + 1) + length bs)
          ((calls @ [page_url base userId cur]) @ requests nrm base userId (cursor_of nrm b) bs)"
    using Cons.prems by (intro Cons.IH) simp_all
  show ?case unfolding step rest by simp
qed

lemma answers_append:
  "answers nrm base userId up k cur (bs @ cs)
     = (answers nrm base userId up k cur bs \<and> answers nrm base userId up (k + length bs) (cursor_after nrm cur bs) cs)"
  by (induction bs arbitrary: k cur) auto

lemma requests_append:
  "requests nrm base userId cur (bs @ cs)
     = requests nrm base userId cur bs @ requests nrm base userId (cursor_after nrm cur bs) cs"
  by (induction bs arbitrary: cur) auto

lemma created_with_cap:
  "length (snd (created_gamepasses_with nrm catch base up userId)) \<le> 50"
proof (cases "numeric userId")
  case False
  then show ?thesis by (simp add: created_gamepasses_with_def)
next
  case True
  have "length (snd (pages_loop nrm base up userId [] (JStr []) 0 [])) \<le> 50"
    using pages_loop_calls [of nrm base up userId "[]" "JStr []" 0 "[]"] by (simp add: safetyPages_def)
  with True show ?thesis
    by (auto simp: created_gamepasses_with_def split: prod.splits sum.splits)
qed

text \<open>
  Claim C1: for every \<^verbatim>\<open>userId\<close> and every upstream, whatever it answers (an upstream whose
  every page carries a next cursor included), the handler returns after at most 50 upstream
  calls, in both versions of the loop. The loop is a total function: its termination is
  proved where it is defined, by the measure \<open>safetyPages - pages\<close>.
\<close>

theorem created_gamepasses_call_cap:
  "length (snd (created_gamepasses use_roroxy up userId)) \<le> 50
   \<and> length (snd (created_gamepasses_v2 up userId)) \<le> 50"
  by (simp add: created_gamepasses_def created_gamepasses_v2_def created_with_cap)

theorem created_gamepasses_call_cap_witness:
  "length (snd (created_gamepasses False always_more ''17'')) = 50
   \<and> length (snd (created_gamepasses False always_more ''17'')) \<le> 50
   \<and> length (snd (created_gamepasses_v2 always_more ''17'')) \<le> 50"
proof -
  have "length (snd (created_gamepasses False always_more ''17'')) = 50"
    by code_simp
  then show ?thesis
    using created_gamepasses_call_cap [of False always_more "''17''"] by simp
qed

section \<open>Aggregation of the pages\<close>

lemma created_with_concat:
  assumes num: "numeric userId"
    and ans: "answers nrm base userId up 0 (JStr []) (bs @ [b])"
    and more: "list_all (has_next nrm) bs"
    and ok: "page_ok nrm b"
    and stop: "\<not> truthy (cursor_of nrm b)"
    and len: "length bs < 50"
  shows "created_gamepasses_with nrm catch base up userId
     = (Json 200 (JObj [(''ok'', JBool True),
                        (''count'', JNum (of_nat (length (concat (map (items_of nrm) (bs @ [b])))))),
                        (''results'', JArr (concat (map (items_of nrm) (bs @ [b]))))]),
        requests nrm base userId (JStr []) (bs @ [b]))"
proof -
  let ?cur = "cursor_after nrm (JStr []) bs"
  let ?calls = "requests nrm base userId (JStr []) bs"
  from ans have a1: "answers nrm base userId up (length ([] :: url list)) (JStr []) bs"
    and a2: "up (length bs) (page_url base userId ?cur) = Inr b"
    by (simp_all add: answers_append)
  have pre: "pages_loop nrm base up userId [] (JStr []) 0 []
      = pages_loop nrm base up userId ([] @ concat (map (items_of nrm) bs)) ?cur (0 + length bs) ([] @ ?calls)"
    using a1 more len by (intro loop_pages) (simp_all add: safetyPages_def)
  have last: "pages_loop nrm base up userId (concat (map (items_of nrm) bs)) ?cur (length bs) ?calls
      = (Inr (concat (map (items_of nrm) bs) @ items_of nrm b), ?calls @ [page_url base userId ?cur])"
    using len a2 page_ok_nrm [OF ok] stop
    by (intro loop_break [where body = b and nextId = "cursor_of nrm b"]) (simp_all add: safetyPages_def length_requests)
  show ?thesis
    using num by (simp add: created_gamepasses_with_def pre last requests_append)
qed

text \<open>
  When the upstream answers the calls with the bodies \<open>bs @ [b]\<close>, every body of \<open>bs\<close>
  carrying a next cursor and \<open>b\<close> (page N, at most the 50th) carrying none, and the item
  extraction throws on none of them, the loop stops after \<open>b\<close> and the results are the items
  of the pages, concatenated in the order of the requests. Nothing is removed: an item that
  two pages share appears twice.
\<close>

lemma created_gamepasses_concatenates:
  assumes "numeric userId"
    and "answers normalise (api_base use_roroxy) userId up 0 (JStr []) (bs @ [b])"
    and "list_all (has_next normalise) bs"
    and "page_ok normalise b"
    and "\<not> truthy (cursor_of normalise b)"
    and "length bs < 50"
  shows "created_gamepasses use_roroxy up userId
     = (Json 200 (JObj [(''ok'', JBool True),
                        (''count'', JNum (of_nat (length (concat (map (items_of normalise) (bs @ [b])))))),
                        (''results'', JArr (concat (map (items_of normalise) (bs @ [b]))))]),
        requests normalise (api_base use_roroxy) userId (JStr []) (bs @ [b]))"
  unfolding created_gamepasses_def using assms by (rule created_with_concat)

lemma items_of_normalise: "page_ok normalise b \<Longrightarrow> page_items b = Inr (items_of normalise b)"
  by (auto simp: page_ok_def items_of_def normalise_def normalise_with_def split: sum.splits)

lemma cursor_of_normalise: "page_ok normalise b \<Longrightarrow> next_id b = Inr (cursor_of normalise b)"
  by (auto simp: page_ok_def cursor_of_def normalise_def normalise_with_def split: sum.splits)

lemma normalise_page_body [simp]:
  "normalise (page_body k more) = Inr ([JNum (of_nat k), JNum (of_nat (k + 1))], if more then JStr ''next'' else JNull)"
  by (simp add: normalise_def normalise_with_def page_items_def next_id_def next_id_gen_def meta_next_def page_body_def)

lemma three_pages_concatenated:
  "created_gamepasses False three_pages ''17''
     = (Json 200 (JObj [(''ok'', JBool True), (''count'', JNum 6),
                        (''results'', JArr [JNum 0, JNum 1, JNum 1, JNum 2, JNum 2, JNum 3])]),
        [page_url ''https://apis.roblox.com'' ''17'' (JStr []),
         page_url ''https://apis.roblox.com'' ''17'' (JStr ''next''),
         page_url ''https://apis.roblox.com'' ''17'' (JStr ''next'')])"
proof -
  have h1: "numeric ''17''" by (simp add: numeric_def is_digit_def)
  have h2: "answers normalise (api_base False) ''17'' three_pages 0 (JStr [])
              ([page_body 0 True, page_body 1 True] @ [page_body 2 False])"
    by (simp add: three_pages_def cursor_of_def numeral_2_eq_2)
  have h3: "list_all (has_next normalise) [page_body 0 True, page_body 1 True]"
    by (simp add: has_next_def page_ok_def cursor_of_def)
  have h4: "page_ok normalise (page_body 2 False)" by (simp add: page_ok_def)
  have h5: "\<not> truthy (cursor_of normalise (page_body 2 False))" by (simp add: cursor_of_def)
  have h6: "length [page_body 0 True, page_body 1 True] < 50" by simp
  show ?thesis
    using created_gamepasses_concatenates [OF h1 h2 h3 h4 h5 h6]
    by (simp add: items_of_def cursor_of_def api_base_def)
qed

text \<open>
  Claim C5, at the inputs where the code departs from it: the first page has two items and
  a cursor, the second page has no cursor and is \<^verbatim>\<open>null\<close>, or is an object whose \<^verbatim>\<open>items\<close>
  field is an object. The loop stops after the second page, but the item extraction throws
  on it (the defect of claim C3) and the handler answers 500 with the message of the error:
  the items of the first page are lost, where the claim says the result is the
  concatenation of the two pages. The later version tests \<^verbatim>\<open>items\<close> with
  \<^verbatim>\<open>Array.isArray\<close> and answers the second run with the items of the first page.
\<close>

theorem aggregation_lost_on_throw:
  "find truthy (cursor_candidates JNull) = None
   \<and> find truthy (cursor_candidates (JObj [(''items'', JObj [(''a'', JNum 1)])])) = None
   \<and> (\<exists>m. fst (created_gamepasses False last_page_null ''17'')
            = Json 500 (JObj [(''ok'', JBool False), (''error'', JStr m)]))
   \<and> length (snd (created_gamepasses False last_page_null ''17'')) = 2
   \<and> (\<exists>m. fst (created_gamepasses False last_page_odd_items ''17'')
            = Json 500 (JObj [(''ok'', JBool False), (''error'', JStr m)]))
   \<and> length (snd (created_gamepasses False last_page_odd_items ''17'')) = 2
   \<and> (\<exists>m. fst (created_gamepasses_v2 last_page_null ''17'')
            = Json 500 (JObj [(''ok'', JBool False), (''error'', JStr m)]))
   \<and> created_gamepasses_v2 last_page_odd_items ''17''
       = (Json 200 (JObj [(''ok'', JBool True), (''count'', JNum 2), (''results'', JArr [JNum 0, JNum 1])]),
          [page_url ''https://apis.roblox.com'' ''17'' (JStr []),
           page_url ''https://apis.roblox.com'' ''17'' (JStr ''next'')])"
proof -
  have a: "find truthy (cursor_candidates JNull) = None"
    by (simp add: cursor_candidates_def field_def)
  have b: "find truthy (cursor_candidates (JObj [(''items'', JObj [(''a'', JNum 1)])])) = None"
    by (simp add: cursor_candidates_def field_def)
  have "fst (created_gamepasses False last_page_null ''17'')
      = Json 500 (JObj [(''ok'', JBool False),
          (''error'', JStr (''Cannot read properties of null (reading '' @ [CHR 0x27] @ ''data'' @ [CHR 0x27] @ '')''))])"
    by code_simp
  then have c: "\<exists>m. fst (created_gamepasses False last_page_null ''17'')
      = Json 500 (JObj [(''ok'', JBool False), (''error'', JStr m)])"
    by blast
  have d: "length (snd (created_gamepasses False last_page_null ''17'')) = 2"
    by code_simp
  have "fst (created_gamepasses False last_page_odd_items ''17'')
      = Json 500 (JObj [(''ok'', JBool False),
          (''error'', JStr ''Spread syntax requires ...iterable[Symbol.iterator] to be a function'')])"
    by code_simp
  then have e: "\<exists>m. fst (created_gamepasses False last_page_odd_items ''17'')
      = Json 500 (JObj [(''ok'', JBool False), (''error'', JStr m)])"
    by blast
  have f: "length (snd (created_gamepasses False last_page_odd_items ''17'')) = 2"
    by code_simp
  have "fst (created_gamepasses_v2 last_page_null ''17'')
      = Json 500 (JObj [(''ok'', JBool False),
          (''error'', JStr (''Cannot read properties of null (reading '' @ [CHR 0x27] @ ''data'' @ [CHR 0x27] @ '')''))])"
    by code_simp
  then have g: "\<exists>m. fst (created_gamepasses_v2 last_page_null ''17'')
      = Json 500 (JObj [(''ok'', JBool False), (''error'', JStr m)])"
    by blast
  have h: "created_gamepasses_v2 last_page_odd_items ''17''
       = (Json 200 (JObj [(''ok'', JBool True), (''count'', JNum 2), (''results'', JArr [JNum 0, JNum 1])]),
          [page_url ''https://apis.roblox.com'' ''17'' (JStr []),
           page_url ''https://apis.roblox.com'' ''17'' (JStr ''next'')])"
    by code_simp
  from a b c d e f g h show ?thesis by blast
qed

section \<open>A failure in the middle of the pages\<close>

lemma created_with_fails:
  assumes num: "numeric userId"
    and ans: "answers nrm base userId up 0 (JStr []) bs"
    and more: "list_all (has_next nrm) bs"
    and len: "length bs < 50"
    and fails: "up (length bs) (page_url base userId (cursor_after nrm (JStr []) bs)) = Inl err"
  shows "created_gamepasses_with nrm catch base up userId
     = (catch err, requests nrm base userId (JStr []) bs @ [page_url base userId (cursor_after nrm (JStr []) bs)])"
proof -
  let ?cur = "cursor_after nrm (JStr []) bs"
  let ?calls = "requests nrm base userId (JStr []) bs"
  from ans have a1: "answers nrm base userId up (length ([] :: url list)) (JStr []) bs"
    by simp
  have pre: "pages_loop nrm base up userId [] (JStr []) 0 []
      = pages_loop nrm base up userId ([] @ concat (map (items_of nrm) bs)) ?cur (0 + length bs) ([] @ ?calls)"
    using a1 more len by (intro loop_pages) (simp_all add: safetyPages_def)
  have last: "pages_loop nrm base up userId (concat (map (items_of nrm) bs)) ?cur (length bs) ?calls
      = (Inl err, ?calls @ [page_url base userId ?cur])"
    using len fails by (intro loop_call_fails) (simp_all add: safetyPages_def length_requests)
  show ?thesis
    using num by (simp add: created_gamepasses_with_def pre last)
qed

lemma catch_reply_forwards:
  "s \<noteq> 0 \<Longrightarrow> truthy d \<Longrightarrow>
   catch_reply (AxiosError (Some (s, d)) m) = Json s (JObj [(''ok'', JBool False), (''error'', d)])"
  by (simp add: catch_reply_def catch_status_def catch_data_def)

lemma catch_reply_generic:
  "err_response err = None \<Longrightarrow>
   catch_reply err = Json 500 (JObj [(''ok'', JBool False),
       (''error'', JStr (if err_message err \<noteq> [] then err_message err else ''request failed''))])"
  by (simp add: catch_reply_def catch_status_def catch_data_def)

text \<open>
  Claim C4: when the pages \<open>bs\<close> were fetched, each carrying a next cursor, and the next
  upstream call fails with \<open>err\<close>, the handler answers with one failure reply and that
  reply is made of \<open>err\<close> alone. Its status is the upstream status when the error carries a
  response (500 for a status of 0) and 500 when it carries none; its \<^verbatim>\<open>error\<close> is the upstream
  body when the error carries a response with a truthy body, and otherwise the message of
  the error, or \<^verbatim>\<open>request failed\<close> when the message is empty. The reply has no other field
  than \<^verbatim>\<open>ok: false\<close>: the items of \<open>bs\<close> are not in it.
\<close>

theorem created_gamepasses_failure_discards:
  assumes "numeric userId"
    and "answers normalise (api_base use_roroxy) userId up 0 (JStr []) bs"
    and "list_all (has_next normalise) bs"
    and "length bs < 50"
    and "up (length bs) (page_url (api_base use_roroxy) userId (cursor_after normalise (JStr []) bs)) = Inl err"
  shows "created_gamepasses use_roroxy up userId
           = (Json (case err_response err of None \<Rightarrow> 500 | Some (s, d) \<Rightarrow> if s = 0 then 500 else s)
                (JObj [(''ok'', JBool False),
                       (''error'',
                          case err_response err of
                            None \<Rightarrow> JStr (if err_message err = [] then ''request failed'' else err_message err)
                          | Some (s, d) \<Rightarrow>
                              if truthy d then d
                              else JStr (if err_message err = [] then ''request failed'' else err_message err))]),
              requests normalise (api_base use_roroxy) userId (JStr []) bs
              @ [page_url (api_base use_roroxy) userId (cursor_after normalise (JStr []) bs)])"
proof -
  have run: "created_gamepasses use_roroxy up userId
           = (catch_reply err,
              requests normalise (api_base use_roroxy) userId (JStr []) bs
              @ [page_url (api_base use_roroxy) userId (cursor_after normalise (JStr []) bs)])"
    unfolding created_gamepasses_def using assms by (rule created_with_fails)
  have reply: "catch_reply err
      = Json (case err_response err of None \<Rightarrow> 500 | Some (s, d) \<Rightarrow> if s = 0 then 500 else s)
          (JObj [(''ok'', JBool False),
                 (''error'',
                    case err_response err of
                      None \<Rightarrow> JStr (if err_message err = [] then ''request failed'' else err_message err)
                    | Some (s, d) \<Rightarrow>
                        if truthy d then d
                        else JStr (if err_message err = [] then ''request failed'' else err_message err))])"
    by (simp add: catch_reply_def catch_status_def catch_data_def split: option.splits prod.splits)
  show ?thesis unfolding run reply ..
qed

theorem created_gamepasses_failure_discards_witness:
  "created_gamepasses False
       (fails_on_third (AxiosError (Some (503, JObj [(''message'', JStr ''busy'')])) ''Request failed with status code 503''))
       ''17''
     = (Json 503 (JObj [(''ok'', JBool False), (''error'', JObj [(''message'', JStr ''busy'')])]),
        [page_url ''https://apis.roblox.com'' ''17'' (JStr []),
         page_url ''https://apis.roblox.com'' ''17'' (JStr ''next''),
         page_url ''https://apis.roblox.com'' ''17'' (JStr ''next'')])
   \<and> created_gamepasses False
       (fails_on_third (AxiosError (Some (503, JStr [])) ''Request failed with status code 503'')) ''17''
     = (Json 503 (JObj [(''ok'', JBool False), (''error'', JStr ''Request failed with status code 503'')]),
        [page_url ''https://apis.roblox.com'' ''17'' (JStr []),
         page_url ''https://apis.roblox.com'' ''17'' (JStr ''next''),
         page_url ''https://apis.roblox.com'' ''17'' (JStr ''next'')])
   \<and> created_gamepasses False (fails_on_third (AxiosError None ''timeout of 10000ms exceeded'')) ''17''
     = (Json 500 (JObj [(''ok'', JBool False), (''error'', JStr ''timeout of 10000ms exceeded'')]),
        [page_url ''https://apis.roblox.com'' ''17'' (JStr []),
         page_url ''https://apis.roblox.com'' ''17'' (JStr ''next''),
         page_url ''https://apis.roblox.com'' ''17'' (JStr ''next'')])"
proof -
  have h1: "numeric ''17''" by (simp add: numeric_def is_digit_def)
  have h2: "answers normalise (api_base False) ''17'' (fails_on_third err) 0 (JStr [])
              [page_body 0 True, page_body 1 True]" for err
    by (simp add: fails_on_third_def cursor_of_def)
  have h3: "list_all (has_next normalise) [page_body 0 True, page_body 1 True]"
    by (simp add: has_next_def page_ok_def cursor_of_def)
  have h4: "length [page_body 0 True, page_body 1 True] < 50" by simp
  have h5: "fails_on_third err (length [page_body 0 True, page_body 1 True])
              (page_url (api_base False) ''17'' (cursor_after normalise (JStr []) [page_body 0 True, page_body 1 True]))
            = Inl err" for err
    by (simp add: fails_on_third_def)
  show ?thesis
    using created_gamepasses_failure_discards [where up = "fails_on_third (AxiosError (Some (503, JObj [(''message'', JStr ''busy'')])) ''Request failed with status code 503'')", OF h1 h2 h3 h4 h5]
      created_gamepasses_failure_discards [where up = "fails_on_third (AxiosError (Some (503, JStr [])) ''Request failed with status code 503'')", OF h1 h2 h3 h4 h5]
      created_gamepasses_failure_discards [where up = "fails_on_third (AxiosError None ''timeout of 10000ms exceeded'')", OF h1 h2 h3 h4 h5]
    by (simp add: cursor_of_def api_base_def)
qed

section \<open>The next-page cursor\<close>

lemma get_prop_field: "v \<noteq> JNull \<Longrightarrow> v \<noteq> JUndefined \<Longrightarrow> get_prop v k = Inr (field v k)"
  by (cases v) (simp_all add: field_def)

lemma get_prop_nullish: "v = JNull \<or> v = JUndefined \<Longrightarrow> \<exists>e. get_prop v k = Inl e"
  by auto

lemma field_nullish: "v = JNull \<or> v = JUndefined \<Longrightarrow> field v k = JUndefined"
  by (auto simp: field_def)

lemma truthy_not_nullish: "truthy v \<Longrightarrow> v \<noteq> JNull \<and> v \<noteq> JUndefined"
  by auto

lemma field_of_falsy: "\<not> truthy v \<Longrightarrow> \<not> truthy (field v k)"
  by (cases v) (auto simp: field_def)

lemma meta_next_field:
  assumes "body \<noteq> JNull" "body \<noteq> JUndefined"
  shows "\<exists>c. meta_next body = Inr c
           \<and> truthy c = truthy (field (field body ''meta'') ''nextExclusiveStartId'')
           \<and> (truthy c \<longrightarrow> c = field (field body ''meta'') ''nextExclusiveStartId'')"
proof (cases "truthy (field body ''meta'')")
  case True
  then have "get_prop (field body ''meta'') ''nextExclusiveStartId''
      = Inr (field (field body ''meta'') ''nextExclusiveStartId'')"
    using truthy_not_nullish by (intro get_prop_field) auto
  with True assms show ?thesis
    by (simp add: meta_next_def get_prop_field)
next
  case False
  with assms show ?thesis
    by (simp add: meta_next_def get_prop_field field_of_falsy)
qed

lemma next_id_gen_found:
  assumes "find truthy (cursor_candidates body) = Some c"
  shows "next_id_gen or_null body = Inr c"
proof -
  have nn: "body \<noteq> JNull \<and> body \<noteq> JUndefined"
    using assms by (auto simp: cursor_candidates_def field_nullish)
  obtain m where m: "meta_next body = Inr m"
    "truthy m = truthy (field (field body ''meta'') ''nextExclusiveStartId'')"
    "truthy m \<longrightarrow> m = field (field body ''meta'') ''nextExclusiveStartId''"
    using meta_next_field nn by blast
  show ?thesis
    using assms nn m
    by (auto simp: next_id_gen_def cursor_candidates_def get_prop_field split: if_splits)
qed

lemma next_id_gen_none:
  assumes "find truthy (cursor_candidates body) = None"
    and "next_id_gen or_null body = Inr c"
  shows "\<not> truthy c \<and> (or_null \<longrightarrow> c = JNull)"
proof -
  have nn: "body \<noteq> JNull \<and> body \<noteq> JUndefined"
    using assms(2) by (auto simp: next_id_gen_def)
  obtain m where m: "meta_next body = Inr m"
    "truthy m = truthy (field (field body ''meta'') ''nextExclusiveStartId'')"
    using meta_next_field nn by blast
  show ?thesis
    using assms nn m
    by (auto simp: next_id_gen_def cursor_candidates_def get_prop_field split: if_splits)
qed

lemma normalise_with_continue:
  "items body = Inr its \<Longrightarrow> cursor body = Inr c \<Longrightarrow> normalise_with items cursor body = Inr (its, c)"
  by (simp add: normalise_with_def)

lemma normalise_with_stops:
  assumes "\<And>c. cursor body = Inr c \<Longrightarrow> \<not> truthy c"
  shows "(\<exists>e. normalise_with items cursor body = Inl e)
         \<or> (\<exists>its c. normalise_with items cursor body = Inr (its, c) \<and> items body = Inr its \<and> \<not> truthy c)"
  using assms by (auto simp: normalise_with_def split: sum.splits)

lemma loop_stops:
  assumes lt: "pages < safetyPages"
    and call: "up (length calls) (page_url base userId cur) = Inr body"
    and none: "\<And>c. cursor body = Inr c \<Longrightarrow> \<not> truthy c"
  shows "snd (pages_loop (normalise_with items cursor) base up userId results cur pages calls)
           = calls @ [page_url base userId cur]
         \<and> (\<forall>its. items body = Inr its \<and> (\<exists>c. cursor body = Inr c) \<longrightarrow>
               pages_loop (normalise_with items cursor) base up userId results cur pages calls
                 = (Inr (results @ its), calls @ [page_url base userId cur]))"
proof -
  from normalise_with_stops [of cursor body items, OF none]
  consider (throws) e where "normalise_with items cursor body = Inl e"
    | (last) its c where "normalise_with items cursor body = Inr (its, c)" "items body = Inr its" "\<not> truthy c"
    by blast
  then show ?thesis
  proof cases
    case throws
    then have "pages_loop (normalise_with items cursor) base up userId results cur pages calls
        = (Inl e, calls @ [page_url base userId cur])"
      using lt call by (intro loop_page_throws)
    moreover from throws have "\<not> (\<exists>its. items body = Inr its \<and> (\<exists>c. cursor body = Inr c))"
      by (auto simp: normalise_with_def)
    ultimately show ?thesis by auto
  next
    case last
    then have "pages_loop (normalise_with items cursor) base up userId results cur pages calls
        = (Inr (results @ its), calls @ [page_url base userId cur])"
      using lt call by (intro loop_break)
    with last show ?thesis by auto
  qed
qed

text \<open>
  Claim C6: for every body the upstream returns to a request of the loop, the next-page
  cursor is the first truthy (non-empty) value among \<^verbatim>\<open>nextExclusiveStartId\<close>,
  \<^verbatim>\<open>nextCursor\<close> and \<^verbatim>\<open>meta.nextExclusiveStartId\<close>, in both versions, and the next request
  carries it; when none of the three is truthy no cursor is adopted (the first version yields
  \<^verbatim>\<open>null\<close>), no further request is made and the items gathered so far are the result.
\<close>

theorem next_cursor_order:
  assumes "pages < safetyPages"
    and "up (length calls) (page_url base userId cur) = Inr body"
  shows "case find truthy (cursor_candidates body) of
           Some c \<Rightarrow>
             next_id body = Inr c \<and> next_id_v2 body = Inr c
             \<and> (\<forall>its. page_items body = Inr its \<longrightarrow>
                   pages_loop normalise base up userId results cur pages calls
                     = pages_loop normalise base up userId (results @ its) c (pages + 1)
                         (calls @ [page_url base userId cur]))
             \<and> (\<forall>its. page_items_v2 body = Inr its \<longrightarrow>
                   pages_loop normalise_v2 base up userId results cur pages calls
                     = pages_loop normalise_v2 base up userId (results @ its) c (pages + 1)
                         (calls @ [page_url base userId cur]))
         | None \<Rightarrow>
             (\<forall>c. next_id body = Inr c \<longrightarrow> c = JNull)
             \<and> (\<forall>c. next_id_v2 body = Inr c \<longrightarrow> \<not> truthy c)
             \<and> snd (pages_loop normalise base up userId results cur pages calls)
                 = calls @ [page_url base userId cur]
             \<and> snd (pages_loop normalise_v2 base up userId results cur pages calls)
                 = calls @ [page_url base userId cur]
             \<and> (\<forall>its. page_items body = Inr its \<longrightarrow>
                   pages_loop normalise base up userId results cur pages calls
                     = (Inr (results @ its), calls @ [page_url base userId cur]))"
proof (cases "find truthy (cursor_candidates body)")
  case (Some c)
  have t: "truthy c" using Some by (auto simp: find_Some_iff)
  have n1: "next_id body = Inr c" and n2: "next_id_v2 body = Inr c"
    using Some by (simp_all add: next_id_def next_id_v2_def next_id_gen_found)
  have l1: "pages_loop normalise base up userId results cur pages calls
      = pages_loop normalise base up userId (results @ its) c (pages + 1) (calls @ [page_url base userId cur])"
    if "page_items body = Inr its" for its
    using assms t normalise_with_continue [where items = page_items and cursor = next_id and body = body, OF that n1]
    by (intro loop_continue [where body = body]) (simp_all add: normalise_def)
  have l2: "pages_loop normalise_v2 base up userId results cur pages calls
      = pages_loop normalise_v2 base up userId (results @ its) c (pages + 1) (calls @ [page_url base userId cur])"
    if "page_items_v2 body = Inr its" for its
    using assms t normalise_with_continue [where items = page_items_v2 and cursor = next_id_v2 and body = body, OF that n2]
    by (intro loop_continue [where body = body]) (simp_all add: normalise_v2_def)
  show ?thesis using Some n1 n2 l1 l2 by simp
next
  case None
  have f1: "\<not> truthy c \<and> c = JNull" if "next_id body = Inr c" for c
    using next_id_gen_none [OF None, of True c] that by (simp add: next_id_def)
  have f2: "\<not> truthy c" if "next_id_v2 body = Inr c" for c
    using next_id_gen_none [OF None, of False c] that by (simp add: next_id_v2_def)
  have s1: "snd (pages_loop (normalise_with page_items next_id) base up userId results cur pages calls)
           = calls @ [page_url base userId cur]
         \<and> (\<forall>its. page_items body = Inr its \<and> (\<exists>c. next_id body = Inr c) \<longrightarrow>
               pages_loop (normalise_with page_items next_id) base up userId results cur pages calls
                 = (Inr (results @ its), calls @ [page_url base userId cur]))"
    using assms f1 by (intro loop_stops) auto
  have s2: "snd (pages_loop (normalise_with page_items_v2 next_id_v2) base up userId results cur pages calls)
           = calls @ [page_url base userId cur]"
    using loop_stops [where pages = pages and up = up and calls = calls and base = base and userId = userId
        and cur = cur and body = body and cursor = next_id_v2 and items = page_items_v2 and results = results]
      assms f2 by blast
  have ex: "\<exists>c. next_id body = Inr c" if "page_items body = Inr its" for its
  proof -
    from that have "body \<noteq> JNull" "body \<noteq> JUndefined" by (auto simp: page_items_def)
    then obtain m where "meta_next body = Inr m" using meta_next_field by blast
    with \<open>body \<noteq> JNull\<close> \<open>body \<noteq> JUndefined\<close> show ?thesis
      by (auto simp: next_id_def next_id_gen_def get_prop_field)
  qed
  show ?thesis
    using None f1 f2 s1 s2 ex by (simp add: normalise_def normalise_v2_def)
qed

theorem next_cursor_order_witness:
  "next_id meta_cursor_body = Inr (JNum 42) \<and> next_id_v2 meta_cursor_body = Inr (JNum 42)
   \<and> pages_loop normalise ''b'' meta_cursor_upstream ''17'' [] (JStr []) 49 []
       = pages_loop normalise ''b'' meta_cursor_upstream ''17'' [JNum 1] (JNum 42) 50 [page_url ''b'' ''17'' (JStr [])]"
proof -
  have h1: "(49::nat) < safetyPages" by (simp add: safetyPages_def)
  have h2: "meta_cursor_upstream (length ([] :: url list)) (page_url ''b'' ''17'' (JStr [])) = Inr meta_cursor_body"
    by (simp add: meta_cursor_upstream_def)
  have c: "find truthy (cursor_candidates meta_cursor_body) = Some (JNum 42)"
    by (simp add: cursor_candidates_def meta_cursor_body_def field_def)
  have i: "page_items meta_cursor_body = Inr [JNum 1]"
    by (simp add: page_items_def meta_cursor_body_def)
  show ?thesis
    using next_cursor_order [where pages = 49 and up = meta_cursor_upstream and calls = "[]" and base = "''b''"
        and userId = "''17''" and cur = "JStr []" and body = meta_cursor_body and results = "[]", OF h1 h2] c i
    by simp
qed

section \<open>Item extraction\<close>

text \<open>The order of the four guesses on an object: \<^verbatim>\<open>data\<close> when it is a list, else
  \<^verbatim>\<open>gamePasses\<close> when truthy, else \<^verbatim>\<open>items\<close> when truthy, else nothing.\<close>

lemma page_items_object:
  "page_items (JObj kvs) =
     (if isArray (field (JObj kvs) ''data'') then spread (field (JObj kvs) ''data'')
      else if truthy (field (JObj kvs) ''gamePasses'') then spread (field (JObj kvs) ''gamePasses'')
      else if truthy (field (JObj kvs) ''items'') then spread (field (JObj kvs) ''items'')
      else Inr [])"
  by (simp add: page_items_def field_def)

lemma page_items_array: "page_items (JArr xs) = Inr xs"
  by (simp add: page_items_def)

lemma page_items_primitive:
  "page_items (JBool b) = Inr []" "page_items (JNum n) = Inr []" "page_items JNaN = Inr []"
  "page_items (JStr s) = Inr []"
  by (simp_all add: page_items_def)

lemma page_items_v2_object:
  "page_items_v2 (JObj kvs) =
     (if isArray (field (JObj kvs) ''data'') then spread (field (JObj kvs) ''data'')
      else if isArray (field (JObj kvs) ''gamePasses'') then spread (field (JObj kvs) ''gamePasses'')
      else if isArray (field (JObj kvs) ''items'') then spread (field (JObj kvs) ''items'')
      else Inr [])"
  by (simp add: page_items_v2_def field_def)

lemma page_items_v2_array: "page_items_v2 (JArr xs) = Inr []"
  by (simp add: page_items_v2_def)

lemma spread_array_ok: "isArray v \<Longrightarrow> \<exists>xs. spread v = Inr xs"
  by (cases v) auto

lemma page_items_v2_total: "body \<noteq> JNull \<Longrightarrow> body \<noteq> JUndefined \<Longrightarrow> \<exists>its. page_items_v2 body = Inr its"
  by (cases body) (auto simp: page_items_v2_def dest: spread_array_ok)

text \<open>
  Claim C3, at the inputs where the code departs from it: the body \<^verbatim>\<open>null\<close> makes both
  versions throw on \<^verbatim>\<open>body.data\<close>, and a \<^verbatim>\<open>gamePasses\<close> field that is truthy but not
  iterable makes the first version throw on the spread; the handler then answers 500 instead
  of an empty result. The later version tests \<^verbatim>\<open>gamePasses\<close> with \<^verbatim>\<open>Array.isArray\<close> and
  answers that body with no items.
\<close>

theorem normalizer_throws:
  "isl (page_items JNull) \<and> isl (page_items_v2 JNull)
   \<and> isl (page_items (JObj [(''gamePasses'', JNum 7)]))
   \<and> page_items_v2 (JObj [(''gamePasses'', JNum 7)]) = Inr []
   \<and> reply_status (fst (created_gamepasses False null_upstream ''17'')) = 500
   \<and> reply_status (fst (created_gamepasses_v2 null_upstream ''17'')) = 500
   \<and> reply_status (fst (created_gamepasses False odd_field_upstream ''17'')) = 500
   \<and> fst (created_gamepasses_v2 odd_field_upstream ''17'')
       = Json 200 (JObj [(''ok'', JBool True), (''count'', JNum 0), (''results'', JArr [])])"
proof -
  have a: "isl (page_items JNull)" by (simp add: page_items_def)
  have b: "isl (page_items_v2 JNull)" by (simp add: page_items_v2_def)
  have c: "isl (page_items (JObj [(''gamePasses'', JNum 7)]))" by (simp add: page_items_def)
  have d: "page_items_v2 (JObj [(''gamePasses'', JNum 7)]) = Inr []"
    by (simp add: page_items_v2_def)
  have e: "reply_status (fst (created_gamepasses False null_upstream ''17'')) = 500"
    by code_simp
  have f: "reply_status (fst (created_gamepasses_v2 null_upstream ''17'')) = 500"
    by code_simp
  have g: "reply_status (fst (created_gamepasses False odd_field_upstream ''17'')) = 500"
    by code_simp
  have h: "fst (created_gamepasses_v2 odd_field_upstream ''17'')
       = Json 200 (JObj [(''ok'', JBool True), (''count'', JNum 0), (''results'', JArr [])])"
    by code_simp
  from a b c d e f g h show ?thesis by blast
qed

section \<open>The ownership verdict\<close>

lemma has_data_list_field: "has_data_list body = Inr (isArray (field body ''data''))"
proof (cases "truthy body")
  case True
  then show ?thesis
    using truthy_not_nullish [of body] by (simp add: has_data_list_def get_prop_field)
next
  case False
  then have "\<not> isArray (field body ''data'')"
    by (cases body) (auto simp: field_def)
  with False show ?thesis by (simp add: has_data_list_def)
qed

lemma first_count_field:
  assumes "truthy body"
  shows "first_count body
     = Inr (case find truthy (count_candidates body) of Some c \<Rightarrow> c | None \<Rightarrow> field body ''count'')"
  using assms truthy_not_nullish [of body]
  by (simp add: first_count_def count_candidates_def get_prop_field)

lemma count_candidates_falsy: "\<not> truthy body \<Longrightarrow> find truthy (count_candidates body) = None"
  by (cases body) (auto simp: count_candidates_def field_def)

lemma has_count_field: "has_count body = Inr (find truthy (count_candidates body) \<noteq> None)"
proof (cases "truthy body")
  case True
  show ?thesis
  proof (cases "find truthy (count_candidates body)")
    case None
    then have "\<not> truthy (field body ''count'')"
      by (auto simp: count_candidates_def split: if_splits)
    with True None show ?thesis by (simp add: has_count_def first_count_field)
  next
    case (Some c)
    then have "truthy c" by (auto simp: find_Some_iff)
    with True Some show ?thesis by (simp add: has_count_def first_count_field)
  qed
next
  case False
  then show ?thesis by (simp add: has_count_def count_candidates_falsy)
qed

text \<open>The verdict on a 2xx body, in the order of the code: a \<^verbatim>\<open>data\<close> list decides by its
  length; else the first truthy one of \<^verbatim>\<open>totalCount\<close>, \<^verbatim>\<open>total\<close>, \<^verbatim>\<open>count\<close> decides by
  \<^verbatim>\<open>> 0\<close>; else the verdict is unknown. The body is returned in every case, and nothing is
  thrown.\<close>

lemma owns_try_verdict:
  "owns_try to_number body =
     Inr (if isArray (field body ''data'')
          then Json 200 (JObj [(''ok'', JBool True), (''owns'', JBool (non_empty (field body ''data''))), (''raw'', body)])
          else (case find truthy (count_candidates body) of
                  Some c \<Rightarrow> Json 200 (JObj [(''ok'', JBool True), (''owns'', JBool (gt_zero to_number c)),
                                            (''count'', c), (''raw'', body)])
                | None \<Rightarrow> Json 200 (JObj [(''ok'', JBool False), (''owns'', JStr ''unknown''), (''raw'', body)])))"
proof (cases "isArray (field body ''data'')")
  case True
  then have "body \<noteq> JNull" "body \<noteq> JUndefined" by (auto simp: field_def)
  with True show ?thesis
    by (simp add: owns_try_def has_data_list_field get_prop_field)
next
  case False
  show ?thesis
  proof (cases "find truthy (count_candidates body)")
    case None
    with False show ?thesis by (simp add: owns_try_def has_data_list_field has_count_field)
  next
    case (Some c)
    then have "truthy body" using count_candidates_falsy by force
    with False Some show ?thesis
      by (simp add: owns_try_def has_data_list_field has_count_field first_count_field)
  qed
qed

text \<open>
  Claim C2, at the input where the code departs from it: a body whose only count field is
  \<^verbatim>\<open>totalCount: 0\<close>. The presence test \<^verbatim>\<open>body.totalCount || body.total || body.count\<close> is
  false of 0, so the branch that computes \<^verbatim>\<open>count > 0\<close> is skipped and the verdict is
  \<^verbatim>\<open>unknown\<close> with \<^verbatim>\<open>ok: false\<close>, where the claim says \<^verbatim>\<open>owns: false\<close>.
\<close>

theorem owns_zero_count_unknown:
  "owns to_number zero_count_upstream ''1'' ''2''
     = (Json 200 (JObj [(''ok'', JBool False), (''owns'', JStr ''unknown''),
                        (''raw'', JObj [(''totalCount'', JNum 0)])]),
        [owns_url ''1'' ''2''])
   \<and> owns_v2 to_number zero_count_upstream ''1'' ''2''
     = (Json 200 (JObj [(''ok'', JBool False), (''owns'', JStr ''unknown''),
                        (''raw'', JObj [(''totalCount'', JNum 0)])]),
        [owns_url ''1'' ''2''])"
  by (simp add: owns_def owns_v2_def owns_with_def numeric_def is_digit_def zero_count_upstream_def
      owns_try_verdict field_def count_candidates_def)

section \<open>Failures of the ownership call\<close>

lemma owns_with_rejected:
  assumes "numeric userId" "numeric gamePassId"
    and "up 0 (owns_url userId gamePassId) = Inl err"
  shows "owns_with catch to_number up userId gamePassId = (owns_catch catch err, [owns_url userId gamePassId])"
  using assms by (simp add: owns_with_def)

text \<open>
  Claim C7, amended: when the upstream ownership call is rejected with status 404 the handler
  answers 200 with \<^verbatim>\<open>ok: true, owns: false\<close>; when it is rejected with any other status, that
  status is forwarded with \<^verbatim>\<open>ok: false\<close> and an \<^verbatim>\<open>error\<close> that is the upstream body when the
  body is truthy, and otherwise the message of the error (in the first version,
  \<^verbatim>\<open>request failed\<close> when the message is empty as well).
\<close>

theorem owns_rejection_replies:
  assumes "numeric userId" "numeric gamePassId"
    and "up 0 (owns_url userId gamePassId) = Inl (AxiosError (Some (status, data)) message)"
    and "status \<noteq> 0"
  shows "fst (owns to_number up userId gamePassId)
           = (if status = 404 then Json 200 (JObj [(''ok'', JBool True), (''owns'', JBool False)])
              else Json status (JObj [(''ok'', JBool False),
                     (''error'', if truthy data then data
                                 else if message \<noteq> [] then JStr message else JStr ''request failed'')]))
         \<and> fst (owns_v2 to_number up userId gamePassId)
           = (if status = 404 then Json 200 (JObj [(''ok'', JBool True), (''owns'', JBool False)])
              else Json status (JObj [(''ok'', JBool False),
                     (''error'', if truthy data then data else JStr message)]))"
  using assms
  by (simp add: owns_def owns_v2_def owns_with_rejected owns_catch_def catch_reply_def catch_reply_v2_def
      catch_status_def catch_data_def)

theorem owns_rejection_replies_witness:
  "fst (owns no_conversion (rejects_with 404 (JStr []) ''Request failed with status code 404'') ''1'' ''2'')
     = Json 200 (JObj [(''ok'', JBool True), (''owns'', JBool False)])
   \<and> fst (owns_v2 no_conversion (rejects_with 403 (JObj [(''errors'', JArr [])]) ''Request failed with status code 403'') ''1'' ''2'')
     = Json 403 (JObj [(''ok'', JBool False), (''error'', JObj [(''errors'', JArr [])])])"
proof -
  have n1: "numeric ''1''" and n2: "numeric ''2''" by (simp_all add: numeric_def is_digit_def)
  have r1: "rejects_with 404 (JStr []) ''Request failed with status code 404'' 0 (owns_url ''1'' ''2'')
      = Inl (AxiosError (Some (404, JStr [])) ''Request failed with status code 404'')"
    by (simp add: rejects_with_def)
  have r2: "rejects_with 403 (JObj [(''errors'', JArr [])]) ''Request failed with status code 403'' 0 (owns_url ''1'' ''2'')
      = Inl (AxiosError (Some (403, JObj [(''errors'', JArr [])])) ''Request failed with status code 403'')"
    by (simp add: rejects_with_def)
  have z1: "(404::nat) \<noteq> 0" and z2: "(403::nat) \<noteq> 0" by simp_all
  show ?thesis
    using owns_rejection_replies [where up = "rejects_with 404 (JStr []) ''Request failed with status code 404''"
          and to_number = no_conversion, OF n1 n2 r1 z1]
      owns_rejection_replies [where up = "rejects_with 403 (JObj [(''errors'', JArr [])]) ''Request failed with status code 403''"
          and to_number = no_conversion, OF n1 n2 r2 z2]
    by simp
qed

text \<open>The claim as stated fails where the upstream body is empty: a 503 with no body is
  answered with the message of the error, not with the (empty) upstream body.\<close>

theorem owns_empty_body_counterexample:
  "fst (owns no_conversion (rejects_with 503 (JStr []) ''Request failed with status code 503'') ''1'' ''2'')
     = Json 503 (JObj [(''ok'', JBool False), (''error'', JStr ''Request failed with status code 503'')])
   \<and> fst (owns no_conversion (rejects_with 503 (JStr []) ''Request failed with status code 503'') ''1'' ''2'')
     \<noteq> Json 503 (JObj [(''ok'', JBool False), (''error'', JStr [])])"
  by (simp add: owns_def owns_with_def numeric_def is_digit_def rejects_with_def owns_catch_def
      catch_reply_def catch_status_def catch_data_def)

section \<open>Validation of the identifiers\<close>

lemma created_with_rejects:
  "\<not> numeric userId \<Longrightarrow>
   created_gamepasses_with nrm catch base up userId
     = (Json 400 (JObj [(''error'', JStr ''userId must be numeric'')]), [])"
  by (simp add: created_gamepasses_with_def)

lemma owns_with_rejects:
  "\<not> numeric userId \<or> \<not> numeric gamePassId \<Longrightarrow>
   owns_with catch to_number up userId gamePassId
     = (Json 400 (JObj [(''error'', JStr ''userId and gamePassId must be numeric'')]), [])"
  by (auto simp: owns_with_def)

lemma check_ownership_calls:
  "snd (check_ownership now fetch userId gamePassId)
     = (if \<not> given userId \<or> \<not> given gamePassId \<or> isNaN (text_of userId) \<or> isNaN (text_of gamePassId) then []
        else [([Lit ''https://inventory.roblox.com/v1/users/'', Lit (text_of userId), Lit ''/items/'',
                Lit ''GamePass'', Lit ''/'', Lit (text_of gamePassId), Lit ''/is-owned''],
               [(''Content-Type'', ''application/json'')])])"
  by (auto simp: check_ownership_def Let_def split: fetch_result.splits)

lemma check_ownership_rejects:
  "\<not> given userId \<or> \<not> given gamePassId \<or> isNaN (text_of userId) \<or> isNaN (text_of gamePassId) \<Longrightarrow>
   reply_status (fst (check_ownership now fetch userId gamePassId)) = 400"
  by (auto simp: check_ownership_def)

text \<open>
  Claim C8, amended: the routes \<^verbatim>\<open>/api/created-gamepasses/:userId\<close> and
  \<^verbatim>\<open>/api/owns/:userId/:gamePassId\<close> answer 400 and call nothing upstream whenever an
  identifier does not match \<^verbatim>\<open>^\d+$\<close>. The route \<^verbatim>\<open>/api/v1/check-ownership\<close> answers 400 and
  calls nothing upstream exactly when a parameter is missing or empty or is not a number for
  \<^verbatim>\<open>isNaN\<close>; any other request it sends upstream, also one whose identifier is a number
  that does not match \<^verbatim>\<open>^\d+$\<close>.
\<close>

theorem invalid_ids_rejected:
  "(\<not> numeric userId \<longrightarrow>
      created_gamepasses use_roroxy up userId = (Json 400 (JObj [(''error'', JStr ''userId must be numeric'')]), [])
      \<and> created_gamepasses_v2 up userId = (Json 400 (JObj [(''error'', JStr ''userId must be numeric'')]), []))
   \<and> (\<not> numeric userId \<or> \<not> numeric gamePassId \<longrightarrow>
      owns to_number up userId gamePassId
        = (Json 400 (JObj [(''error'', JStr ''userId and gamePassId must be numeric'')]), [])
      \<and> owns_v2 to_number up userId gamePassId
        = (Json 400 (JObj [(''error'', JStr ''userId and gamePassId must be numeric'')]), []))
   \<and> (\<not> given qUserId \<or> \<not> given qGamePassId \<or> isNaN (text_of qUserId) \<or> isNaN (text_of qGamePassId) \<longrightarrow>
      reply_status (fst (check_ownership now fetch qUserId qGamePassId)) = 400
      \<and> snd (check_ownership now fetch qUserId qGamePassId) = [])
   \<and> (given qUserId \<and> given qGamePassId \<and> \<not> isNaN (text_of qUserId) \<and> \<not> isNaN (text_of qGamePassId) \<longrightarrow>
      length (snd (check_ownership now fetch qUserId qGamePassId)) = 1)"
  by (simp add: created_gamepasses_def created_gamepasses_v2_def created_with_rejects
      owns_def owns_v2_def owns_with_rejects check_ownership_calls check_ownership_rejects)

theorem invalid_ids_rejected_witness:
  "created_gamepasses False always_more ''abc'' = (Json 400 (JObj [(''error'', JStr ''userId must be numeric'')]), [])
   \<and> owns_v2 no_conversion always_more ''12'' ''-5''
        = (Json 400 (JObj [(''error'', JStr ''userId and gamePassId must be numeric'')]), [])
   \<and> reply_status (fst (check_ownership ''2024-01-01T00:00:00.000Z'' says_true (Some ''abc'') (Some ''7''))) = 400
   \<and> snd (check_ownership ''2024-01-01T00:00:00.000Z'' says_true (Some ''abc'') (Some ''7'')) = []
   \<and> length (snd (check_ownership ''2024-01-01T00:00:00.000Z'' says_true (Some ''12'') (Some ''7''))) = 1"
proof -
  have a: "\<not> numeric ''abc''" by (simp add: numeric_def is_digit_def)
  have b: "\<not> numeric ''12'' \<or> \<not> numeric ''-5''" by (simp add: numeric_def is_digit_def)
  have c: "\<not> given (Some ''abc'') \<or> \<not> given (Some ''7'') \<or> isNaN (text_of (Some ''abc'')) \<or> isNaN (text_of (Some ''7''))"
    by code_simp
  have d: "given (Some ''12'') \<and> given (Some ''7'') \<and> \<not> isNaN (text_of (Some ''12'')) \<and> \<not> isNaN (text_of (Some ''7''))"
    by code_simp
  show ?thesis
    using invalid_ids_rejected [where userId = "''abc''" and use_roroxy = False and up = always_more
        and gamePassId = "''12''" and to_number = no_conversion and qUserId = "Some ''abc''" and qGamePassId = "Some ''7''" and now = "''2024-01-01T00:00:00.000Z''" and fetch = says_true]
      invalid_ids_rejected [where userId = "''12''" and gamePassId = "''-5''" and to_number = no_conversion and up = always_more
        and qUserId = "Some ''12''" and qGamePassId = "Some ''7''" and now = "''2024-01-01T00:00:00.000Z''" and fetch = says_true]
      a b c d
    by blast
qed

text \<open>The claim as stated fails on \<^verbatim>\<open>/api/v1/check-ownership\<close>: \<^verbatim>\<open>-5\<close> does not match
  \<^verbatim>\<open>^\d+$\<close>, yet it is a number for \<^verbatim>\<open>isNaN\<close>, the request goes upstream and the reply is a
  200.\<close>

theorem check_ownership_counterexample:
  "numeric ''-5'' = False
   \<and> check_ownership ''2024-01-01T00:00:00.000Z'' says_true (Some ''-5'') (Some ''7'')
     = (Json 200 (JObj [(''success'', JBool True), (''method'', JStr ''check-ownership''),
                        (''userId'', JNum (- 5)), (''gamePassId'', JNum 7), (''isOwned'', JBool True),
                        (''timestamp'', JStr ''2024-01-01T00:00:00.000Z'')]),
        [([Lit ''https://inventory.roblox.com/v1/users/'', Lit ''-5'', Lit ''/items/'', Lit ''GamePass'',
           Lit ''/'', Lit ''7'', Lit ''/is-owned''],
          [(''Content-Type'', ''application/json'')])])"
  by code_simp

section \<open>The API key\<close>

text \<open>
  Claim C9, amended: in the version of \<^verbatim>\<open>/api/v1/list-gamepasses\<close> that reads the key
  (\<^verbatim>\<open>src/index.js\<close>, line 115), a request made while \<^verbatim>\<open>ROBLOX_API_KEY\<close> is unset or empty
  never reaches the upstream: it is answered 500 with the guidance text when its
  \<^verbatim>\<open>universeId\<close> is present and a number, and 400 when the \<^verbatim>\<open>universeId\<close> is missing or not
  a number, the parameter being checked before the key.
\<close>

theorem list_gamepasses_without_key:
  assumes "\<not> given api_key"
  shows "list_gamepasses api_key now fetch universeId passView pageSize pageToken
     = (if \<not> given universeId
        then Json 400 (JObj [(''success'', JBool False),
                             (''message'', JStr ''Missing required parameter: universeId.'')])
        else if isNaN (text_of universeId)
        then Json 400 (JObj [(''success'', JBool False),
                             (''message'', JStr ''universeId must be a valid number.'')])
        else Json 500 (JObj [(''success'', JBool False),
                             (''message'', JStr ''Server Error: ROBLOX_API_KEY environment variable is not set.''),
                             (''guide'', JStr ''Please generate a key on the Creator Dashboard with Game Pass read permissions.'')]),
        [])"
  using assms by (simp add: list_gamepasses_def)

theorem list_gamepasses_without_key_witness:
  "list_gamepasses None ''2024-01-01T00:00:00.000Z'' says_true (Some ''12'') (Some ''Full'') None None
     = (Json 500 (JObj [(''success'', JBool False),
                        (''message'', JStr ''Server Error: ROBLOX_API_KEY environment variable is not set.''),
                        (''guide'', JStr ''Please generate a key on the Creator Dashboard with Game Pass read permissions.'')]),
        [])"
proof -
  have k: "\<not> given None" by simp
  have u: "given (Some ''12'')" by simp
  have n: "\<not> isNaN (text_of (Some ''12''))" by code_simp
  show ?thesis
    using list_gamepasses_without_key [OF k, of "''2024-01-01T00:00:00.000Z''" says_true "Some ''12''" "Some ''Full''" None None]
      u n
    by simp
qed

text \<open>The claim as stated fails in two places: without a key, a request with no
  \<^verbatim>\<open>universeId\<close> is answered 400, not 500; and the version of the route in
  \<^verbatim>\<open>src/unnamed/part_001\<close> reads no key and sends the request upstream.\<close>

theorem list_gamepasses_counterexample:
  "list_gamepasses None ''2024-01-01T00:00:00.000Z'' unreachable None None None None
     = (Json 400 (JObj [(''success'', JBool False),
                        (''message'', JStr ''Missing required parameter: universeId.'')]), [])
   \<and> snd (list_gamepasses_keyless unreachable (Some ''12'') None None None)
     = [([Lit ''https://apis.roblox.com/game-passes/v1/universes/'', Lit ''12'', Lit ''/game-passes?'', Query []], [])]"
  by (simp add: list_gamepasses_def list_gamepasses_keyless_def unreachable_def universe_url_def search_params_def)

section \<open>The forwarding proxy\<close>

lemma proxy_calls:
  "snd (proxy fetch targetUrl)
     = (if given targetUrl then [([Lit (text_of targetUrl)], [(''User-Agent'', ''Roblox-Proxy'')])] else [])"
  by (simp add: proxy_def Let_def split: fetch_result.splits)

text \<open>
  Claim C10: whatever the status of the upstream response, \<^verbatim>\<open>/proxy\<close> answers 200 with the
  upstream body text, typed \<^verbatim>\<open>application/json\<close>; it answers 400 exactly when the \<^verbatim>\<open>url\<close>
  parameter is missing (or empty) and 500 exactly when the fetch throws. No other status is
  sent, so the upstream status is never forwarded.
\<close>

theorem proxy_replies:
  "(given targetUrl \<and> fetch ([Lit (text_of targetUrl)], [(''User-Agent'', ''Roblox-Proxy'')]) = FetchResponse status data parsed
      \<longrightarrow> fst (proxy fetch targetUrl)
           = Send 200 [(''Access-Control-Allow-Origin'', ''*''), (''Content-Type'', ''application/json'')] data)
   \<and> (reply_status (fst (proxy fetch targetUrl)) = 400 \<longleftrightarrow> \<not> given targetUrl)
   \<and> (reply_status (fst (proxy fetch targetUrl)) = 500
        \<longleftrightarrow> given targetUrl
            \<and> (\<exists>msg. fetch ([Lit (text_of targetUrl)], [(''User-Agent'', ''Roblox-Proxy'')]) = FetchRejects msg))
   \<and> (reply_status (fst (proxy fetch targetUrl)) = 200
        \<longleftrightarrow> given targetUrl
            \<and> (\<exists>s d p. fetch ([Lit (text_of targetUrl)], [(''User-Agent'', ''Roblox-Proxy'')]) = FetchResponse s d p))
   \<and> reply_status (fst (proxy fetch targetUrl)) \<in> {200, 400, 500}"
  by (auto simp: proxy_def Let_def split: fetch_result.splits)

theorem proxy_replies_witness:
  "fst (proxy not_found (Some ''https://apis.roblox.com/x''))
     = Send 200 [(''Access-Control-Allow-Origin'', ''*''), (''Content-Type'', ''application/json'')] ''{}''
   \<and> reply_status (fst (proxy not_found None)) = 400
   \<and> reply_status (fst (proxy unreachable (Some ''https://apis.roblox.com/x''))) = 500"
proof -
  have r: "given (Some ''https://apis.roblox.com/x'')
      \<and> not_found ([Lit (text_of (Some ''https://apis.roblox.com/x''))], [(''User-Agent'', ''Roblox-Proxy'')])
          = FetchResponse 404 ''{}'' (Inr (JObj []))"
    by (simp add: not_found_def)
  have m: "\<not> given None" by simp
  have t: "given (Some ''https://apis.roblox.com/x'')
      \<and> (\<exists>msg. unreachable ([Lit (text_of (Some ''https://apis.roblox.com/x''))], [(''User-Agent'', ''Roblox-Proxy'')])
                = FetchRejects msg)"
    by (simp add: unreachable_def)
  show ?thesis
    using proxy_replies [of "Some ''https://apis.roblox.com/x''" not_found 404 "''{}''" "Inr (JObj [])"]
      proxy_replies [of None not_found 404 "''{}''" "Inr (JObj [])"]
      proxy_replies [of "Some ''https://apis.roblox.com/x''" unreachable 404 "''{}''" "Inr (JObj [])"]
      r m t
    by blast
qed

end
